theory Spec2Isabelle
  imports Main "HOL-Library.Multiset"
begin

section \<open>Python values shared by the notebooks\<close>

text \<open>
  The exceptions that the notebooks' own code, or the Python constructs it uses directly
  (indexing a tuple, unpacking, resuming a finished generator), can raise.
\<close>

datatype error = AssertionError | IndexError | ValueError | StopIteration

text \<open>
  An array is modelled by the list of its rows along the first axis, so that
  \<open>array.shape[0]\<close> is the length of the list.
\<close>

type_synonym 'a array = "'a list"

definition shape0 :: "'a array \<Rightarrow> int" where
  "shape0 a = int (length a)"

text \<open>
  \<open>xs[i:j]\<close> for Python integers: a negative bound counts from the end, and both bounds
  are clipped to the length.
\<close>

definition py_slice :: "'a list \<Rightarrow> int \<Rightarrow> int \<Rightarrow> 'a list" where
  "py_slice xs i j =
     (let n = int (length xs);
          lo = (if i < 0 then max (i + n) 0 else min i n);
          hi = (if j < 0 then max (j + n) 0 else min j n)
      in take (nat (hi - lo)) (drop (nat lo) xs))"

text \<open>
  \<open>array[batch_perm]\<close> with an array of non-negative indices: one row per index. The
  array library clips an index beyond the last row to the last row.
\<close>

definition gather :: "'a array \<Rightarrow> nat list \<Rightarrow> 'a array" where
  "gather a idx = map (\<lambda>i. a ! min i (length a - 1)) idx"

section \<open>frozen\_layer.ipynb: the toy dataloader\<close>

text \<open>
  The two functions of \<open>jax.random\<close> that \<open>dataloader\<close> calls are parameters of the
  model: \<open>permutation key indices\<close>, and \<open>split key 1\<close> unpacked into its one key.
\<close>

record 'k jrandom =
  jr_permutation :: "'k \<Rightarrow> nat list \<Rightarrow> nat list"
  jr_split1 :: "'k \<Rightarrow> 'k"

text \<open>The local variables of a running \<open>dataloader\<close>.\<close>

record ('a, 'k) dl_frame =
  arrays :: "'a array list"
  batch_size :: int
  dataset_size :: int
  indices :: "nat list"
  key :: 'k
  perm :: "nat list"
  start :: int
  end_idx :: int

text \<open>
  The statements of the body of \<open>while True\<close> that precede the inner loop: a permutation
  drawn with the current key, then the key replaced, \<open>start = 0\<close> and \<open>end = batch_size\<close>.
\<close>

definition begin_pass :: "'k jrandom \<Rightarrow> ('a, 'k) dl_frame \<Rightarrow> ('a, 'k) dl_frame" where
  "begin_pass L f =
     f\<lparr>perm := jr_permutation L (key f) (indices f),
       key := jr_split1 L (key f),
       start := 0,
       end_idx := batch_size f\<rparr>"

text \<open>The value of the \<open>yield\<close> expression.\<close>

definition batch_of :: "('a, 'k) dl_frame \<Rightarrow> 'a array list" where
  "batch_of f = map (\<lambda>array. gather array (py_slice (perm f) (start f) (end_idx f))) (arrays f)"

text \<open>The two statements after the \<open>yield\<close>, run when the generator is resumed.\<close>

definition after_yield :: "('a, 'k) dl_frame \<Rightarrow> ('a, 'k) dl_frame" where
  "after_yield f = f\<lparr>start := end_idx f, end_idx := end_idx f + batch_size f\<rparr>"

text \<open>
  Control from the test of the inner \<open>while\<close> up to the next \<open>yield\<close>. When the test
  fails the outer loop starts its next pass. Nothing bounds the number of passes, so the
  function is partial: \<open>None\<close> is "runs forever without yielding".
\<close>

partial_function (option) run_to_yield ::
  "'k jrandom \<Rightarrow> ('a, 'k) dl_frame \<Rightarrow> ('a array list \<times> ('a, 'k) dl_frame) option" where
  "run_to_yield L f =
     (if end_idx f < dataset_size f then Some (batch_of f, f)
      else run_to_yield L (begin_pass L f))"

declare run_to_yield.simps [code]

text \<open>
  A generator object: created by the call (which runs none of the body), suspended at
  the \<open>yield\<close>, or finished after an exception left the body.
\<close>

datatype ('a, 'k) generator =
  Created "'a array list" int 'k
| Suspended "('a, 'k) dl_frame"
| Finished

definition dataloader :: "'a array list \<Rightarrow> int \<Rightarrow> 'k \<Rightarrow> ('a, 'k) generator" where
  "dataloader arrays' batch_size' key' = Created arrays' batch_size' key'"

text \<open>
  The statements before \<open>while True\<close>, run by the first \<open>next\<close>: \<open>arrays[0]\<close> raises
  on an empty tuple, and the \<open>assert\<close> compares every first dimension with that of
  \<open>arrays[0]\<close>. The frame's \<open>perm\<close>, \<open>start\<close> and \<open>end\<close> are unbound until
  \<open>begin_pass\<close> assigns them.
\<close>

definition header :: "'a array list \<Rightarrow> int \<Rightarrow> 'k \<Rightarrow> error + ('a, 'k) dl_frame" where
  "header arrays' batch_size' key' =
     (case arrays' of
        [] \<Rightarrow> Inl IndexError
      | a0 # _ \<Rightarrow>
          (let dataset_size' = shape0 a0 in
           if list_all (\<lambda>array. shape0 array = dataset_size') arrays'
           then Inr \<lparr>arrays = arrays', batch_size = batch_size', dataset_size = dataset_size',
                     indices = [0..<nat dataset_size'], key = key', perm = [],
                     start = 0, end_idx = 0\<rparr>
           else Inl AssertionError))"

text \<open>
  \<open>next(generator)\<close>: \<open>None\<close> when the call never returns, otherwise the batch yielded
  or the exception raised, and the generator afterwards.
\<close>

definition suspend ::
  "('a array list \<times> ('a, 'k) dl_frame) option \<Rightarrow>
   ((error + 'a array list) \<times> ('a, 'k) generator) option" where
  "suspend r = (case r of None \<Rightarrow> None | Some (batch, f) \<Rightarrow> Some (Inr batch, Suspended f))"

fun gen_next ::
  "'k jrandom \<Rightarrow> ('a, 'k) generator \<Rightarrow> ((error + 'a array list) \<times> ('a, 'k) generator) option" where
  "gen_next L (Created arrays' batch_size' key') =
     (case header arrays' batch_size' key' of
        Inl e \<Rightarrow> Some (Inl e, Finished)
      | Inr f \<Rightarrow> suspend (run_to_yield L (begin_pass L f)))"
| "gen_next L (Suspended f) = suspend (run_to_yield L (after_yield f))"
| "gen_next L Finished = Some (Inl StopIteration, Finished)"

text \<open>
  A consumer that calls \<open>next\<close> up to \<open>c\<close> times and collects what was yielded
  (\<open>list(itertools.islice(generator, c))\<close>, with an exception ending the collection).
\<close>

fun take_gen ::
  "'k jrandom \<Rightarrow> nat \<Rightarrow> ('a, 'k) generator \<Rightarrow> (error + 'a array list list) option" where
  "take_gen L 0 g = Some (Inr [])"
| "take_gen L (Suc c) g =
     (case gen_next L g of
        None \<Rightarrow> None
      | Some (Inl e, g') \<Rightarrow> Some (Inl e)
      | Some (Inr batch, g') \<Rightarrow>
          (case take_gen L c g' of
             None \<Rightarrow> None
           | Some (Inl e) \<Rightarrow> Some (Inl e)
           | Some (Inr batches) \<Rightarrow> Some (Inr (batch # batches))))"

subsection \<open>The statements before the loop, on arrays of any number of dimensions\<close>

text \<open>
  In the model above an array is the list of its rows, so every array has a first
  dimension. The two statements \<open>dataset_size = arrays[0].shape[0]\<close> and
  \<open>assert all(array.shape[0] == dataset_size for array in arrays)\<close> only look at the
  shapes, and an array may have none (\<open>shape == ()\<close>). Here they are as a function of
  the tuple of shapes. \<open>shape[0]\<close> raises on the empty tuple; \<open>all\<close> takes the arrays
  in order and stops at the first comparison that is false.
\<close>

type_synonym shape = "nat list"

definition shape_at0 :: "shape \<Rightarrow> error + nat" where
  "shape_at0 s = (case s of [] \<Rightarrow> Inl IndexError | d # _ \<Rightarrow> Inr d)"

fun all_first_dims :: "nat \<Rightarrow> shape list \<Rightarrow> error + bool" where
  "all_first_dims dataset_size' [] = Inr True"
| "all_first_dims dataset_size' (s # ss) =
     (case shape_at0 s of
        Inl e \<Rightarrow> Inl e
      | Inr d \<Rightarrow> if d = dataset_size' then all_first_dims dataset_size' ss else Inr False)"

definition header_checks :: "shape list \<Rightarrow> error + nat" where
  "header_checks shapes =
     (case shapes of
        [] \<Rightarrow> Inl IndexError
      | s0 # _ \<Rightarrow>
          (case shape_at0 s0 of
             Inl e \<Rightarrow> Inl e
           | Inr dataset_size' \<Rightarrow>
               (case all_first_dims dataset_size' shapes of
                  Inl e \<Rightarrow> Inl e
                | Inr ok \<Rightarrow> if ok then Inr dataset_size' else Inl AssertionError)))"

text \<open>An array with a first dimension of \<open>n\<close>.\<close>

definition first_dim_is :: "nat \<Rightarrow> shape \<Rightarrow> bool" where
  "first_dim_is n s = (case s of [] \<Rightarrow> False | d # _ \<Rightarrow> d = n)"

subsection \<open>What the dataloader is expected to yield\<close>

text \<open>
  The library's contract for \<open>permutation\<close>: the result is a rearrangement of its
  argument.
\<close>

definition perm_ok :: "'k jrandom \<Rightarrow> bool" where
  "perm_ok L = (\<forall>k xs. mset (jr_permutation L k xs) = mset xs)"

text \<open>
  Pass \<open>i\<close> (counted from 0) draws its permutation of \<open>0..n-1\<close> with the key obtained
  from the caller's key by \<open>i\<close> splits.
\<close>

definition pass_perm :: "'k jrandom \<Rightarrow> 'k \<Rightarrow> nat \<Rightarrow> nat \<Rightarrow> nat list" where
  "pass_perm L k n i = jr_permutation L ((jr_split1 L ^^ i) k) [0..<n]"

definition batches_per_pass :: "nat \<Rightarrow> nat \<Rightarrow> nat" where
  "batches_per_pass n b = (n - 1) div b"

text \<open>
  With \<open>m\<close> batches per pass, yield number \<open>t\<close> (counted from 0) belongs to pass
  \<open>t div m\<close> and selects the positions \<open>(t mod m) * b, ..., (t mod m) * b + b - 1\<close> of
  that pass's permutation; the batch holds, for each array, the rows at the indices found
  there.
\<close>

definition spec_positions :: "'k jrandom \<Rightarrow> 'k \<Rightarrow> nat \<Rightarrow> nat \<Rightarrow> nat \<Rightarrow> nat list" where
  "spec_positions L k n b t =
     take b (drop ((t mod batches_per_pass n b) * b)
                  (pass_perm L k n (t div batches_per_pass n b)))"

definition spec_batch ::
  "'k jrandom \<Rightarrow> 'a array list \<Rightarrow> 'k \<Rightarrow> nat \<Rightarrow> nat \<Rightarrow> nat \<Rightarrow> 'a array list" where
  "spec_batch L as k n b t = map (\<lambda>a. map (\<lambda>i. a ! i) (spec_positions L k n b t)) as"

text \<open>The frame in which the generator is suspended after yield number \<open>t\<close>.\<close>

definition frame_at ::
  "'k jrandom \<Rightarrow> 'a array list \<Rightarrow> 'k \<Rightarrow> nat \<Rightarrow> nat \<Rightarrow> nat \<Rightarrow> ('a, 'k) dl_frame" where
  "frame_at L as k n b t =
     \<lparr>arrays = as, batch_size = int b, dataset_size = int n, indices = [0..<n],
      key = (jr_split1 L ^^ Suc (t div batches_per_pass n b)) k,
      perm = pass_perm L k n (t div batches_per_pass n b),
      start = int ((t mod batches_per_pass n b) * b),
      end_idx = int ((t mod batches_per_pass n b) * b + b)\<rparr>"

subsection \<open>The training loop of \<open>main\<close>\<close>

text \<open>\<open>(x, y) = batch\<close>: unpacking a tuple that does not have two elements raises.\<close>

definition unpack2 :: "'a list \<Rightarrow> error + 'a \<times> 'a" where
  "unpack2 xs = (case xs of [x, y] \<Rightarrow> Inr (x, y) | _ \<Rightarrow> Inl ValueError)"

text \<open>
  \<open>for step, (x, y) in zip(range(steps), data_iter): model, opt_state = make_step(...)\<close>.
  \<open>zip\<close> asks \<open>range(steps)\<close> first and stops without touching \<open>data_iter\<close> when the
  range is exhausted; \<open>remaining\<close> counts the steps that the range still has. A
  \<open>StopIteration\<close> of \<open>data_iter\<close> ends the loop, any other exception leaves it.
\<close>

fun main_for_loop ::
  "'k jrandom \<Rightarrow> ('m \<Rightarrow> 'a array \<Rightarrow> 'a array \<Rightarrow> 'o \<Rightarrow> error + 'm \<times> 'o) \<Rightarrow> nat \<Rightarrow>
   ('a, 'k) generator \<Rightarrow> 'm \<Rightarrow> 'o \<Rightarrow> (error + 'm \<times> 'o) option" where
  "main_for_loop L make_step' 0 data_iter model opt_state = Some (Inr (model, opt_state))"
| "main_for_loop L make_step' (Suc remaining) data_iter model opt_state =
     (case gen_next L data_iter of
        None \<Rightarrow> None
      | Some (Inl e, _) \<Rightarrow>
          if e = StopIteration then Some (Inr (model, opt_state)) else Some (Inl e)
      | Some (Inr batch, data_iter') \<Rightarrow>
          (case unpack2 batch of
             Inl e \<Rightarrow> Some (Inl e)
           | Inr (x, y) \<Rightarrow>
               (case make_step' model x y opt_state of
                  Inl e \<Rightarrow> Some (Inl e)
                | Inr (model', opt_state') \<Rightarrow>
                    main_for_loop L make_step' remaining data_iter' model' opt_state')))"

text \<open>\<open>range(steps)\<close> has \<open>steps\<close> elements, none when \<open>steps\<close> is not positive.\<close>

definition main_loop ::
  "'k jrandom \<Rightarrow> ('m \<Rightarrow> 'a array \<Rightarrow> 'a array \<Rightarrow> 'o \<Rightarrow> error + 'm \<times> 'o) \<Rightarrow> int \<Rightarrow>
   ('a, 'k) generator \<Rightarrow> 'm \<Rightarrow> 'o \<Rightarrow> (error + 'm \<times> 'o) option" where
  "main_loop L make_step' steps data_iter model opt_state =
     main_for_loop L make_step' (nat steps) data_iter model opt_state"

section \<open>frozen\_layer.ipynb: the model PyTree and \<open>make_step\<close>\<close>

text \<open>
  The model of \<open>main\<close> is an \<open>eqx.nn.MLP\<close>. Its leaves are the weight and the bias of
  each linear layer and the two activation functions; \<open>'l\<close> is the type of a leaf, so
  that the same shape serves for the model, for \<open>filter_spec\<close> (leaves \<open>bool\<close>) and for
  the partitioned trees (leaves \<open>'a option\<close>, \<open>None\<close> where a leaf was taken out).
\<close>

record 'l linear =
  weight :: 'l
  bias :: 'l

record 'l mlp =
  layers :: "'l linear list"
  activation :: 'l
  final_activation :: 'l

datatype leaf_path = LayerWeight nat | LayerBias nat | ActivationLeaf | FinalActivationLeaf

text \<open>\<open>jtu.tree_map(f, tree)\<close> on this shape.\<close>

definition jtu_tree_map :: "('a \<Rightarrow> 'b) \<Rightarrow> 'a mlp \<Rightarrow> 'b mlp" where
  "jtu_tree_map f tree =
     \<lparr>layers = map (\<lambda>l. \<lparr>weight = f (weight l), bias = f (bias l)\<rparr>) (layers tree),
      activation = f (activation tree),
      final_activation = f (final_activation tree)\<rparr>"

text \<open>
  \<open>jtu.tree_map(f, tree1, tree2)\<close>: the two trees must have the same structure, here
  the same number of layers, otherwise the library raises \<open>ValueError\<close>.
\<close>

definition jtu_tree_map2 :: "('a \<Rightarrow> 'b \<Rightarrow> 'c) \<Rightarrow> 'a mlp \<Rightarrow> 'b mlp \<Rightarrow> error + 'c mlp" where
  "jtu_tree_map2 f tree1 tree2 =
     (if length (layers tree1) = length (layers tree2)
      then Inr \<lparr>layers = map2 (\<lambda>l1 l2. \<lparr>weight = f (weight l1) (weight l2),
                                        bias = f (bias l1) (bias l2)\<rparr>)
                            (layers tree1) (layers tree2),
                activation = f (activation tree1) (activation tree2),
                final_activation = f (final_activation tree1) (final_activation tree2)\<rparr>
      else Inl ValueError)"

text \<open>
  Modelled from the spec: \<open>equinox.tree_at\<close> is not under src/. The spec names no
  behaviour for it; the notebook calls it with
  \<open>lambda tree: (tree.layers[-1].weight, tree.layers[-1].bias)\<close> and describes the
  result as the tree with the leaves of the final layer set to the replacement. The
  \<open>lambda\<close> is the notebook's own code: \<open>tree.layers[-1]\<close> raises on an empty tuple.
\<close>

definition eqx_tree_at_last_layer :: "'l mlp \<Rightarrow> 'l \<times> 'l \<Rightarrow> error + 'l mlp" where
  "eqx_tree_at_last_layer pytree replace =
     (if layers pytree = [] then Inl IndexError
      else Inr (pytree\<lparr>layers := butlast (layers pytree) @
                          [\<lparr>weight = fst replace, bias = snd replace\<rparr>]\<rparr>))"

text \<open>Step 2 of \<open>main\<close>: the two assignments to \<open>filter_spec\<close>.\<close>

definition filter_spec_of :: "'a mlp \<Rightarrow> error + bool mlp" where
  "filter_spec_of model =
     eqx_tree_at_last_layer (jtu_tree_map (\<lambda>_. False) model) (True, True)"

text \<open>
  Modelled from the spec: \<open>equinox.partition\<close> and \<open>equinox.combine\<close> are not under
  src/. The spec lists "filter-partition" as terminology of the library only; the
  notebook says that \<open>partition\<close> is used to "separate out the leaves we want to
  differentiate from the leaves that we want to leave alone". The first tree keeps the
  leaves whose \<open>filter_spec\<close> is \<open>True\<close>, the second the others, each with \<open>None\<close> in
  place of a leaf that went to the other tree; \<open>combine\<close> takes each leaf from the tree
  that has it.
\<close>

definition eqx_partition :: "'a mlp \<Rightarrow> bool mlp \<Rightarrow> error + 'a option mlp \<times> 'a option mlp" where
  "eqx_partition pytree filter_spec =
     (case jtu_tree_map2 (\<lambda>mask x. if mask then Some x else None) filter_spec pytree of
        Inl e \<Rightarrow> Inl e
      | Inr diff \<Rightarrow>
          (case jtu_tree_map2 (\<lambda>mask x. if mask then None else Some x) filter_spec pytree of
             Inl e \<Rightarrow> Inl e
           | Inr static \<Rightarrow> Inr (diff, static)))"

definition eqx_combine :: "'a option mlp \<Rightarrow> 'a option mlp \<Rightarrow> error + 'a option mlp" where
  "eqx_combine tree1 tree2 =
     jtu_tree_map2 (\<lambda>x1 x2. case x1 of Some v \<Rightarrow> Some v | None \<Rightarrow> x2) tree1 tree2"

text \<open>
  The numerical side of the libraries is a parameter: which leaves are floating-point
  arrays, \<open>p + u\<close> on arrays, \<open>jax.vmap(model)(x)\<close>, \<open>jnp.mean((y - pred_y) ** 2)\<close>,
  and the derivative of a scalar function of a tree at a tree, one array per leaf path.
\<close>

record ('a, 'x, 'y, 'r) array_lib =
  is_inexact_array :: "'a \<Rightarrow> bool"
  add :: "'a \<Rightarrow> 'a \<Rightarrow> 'a"
  vmap_call :: "'a option mlp \<Rightarrow> 'x \<Rightarrow> 'y"
  mean_squared :: "'y \<Rightarrow> 'y \<Rightarrow> 'r"
  autodiff :: "('a option mlp \<Rightarrow> error + 'r) \<Rightarrow> 'a option mlp \<Rightarrow> leaf_path \<Rightarrow> 'a"

text \<open>The function \<open>loss\<close> that \<open>make_step\<close> defines, before its decorator.\<close>

definition loss ::
  "('a, 'x, 'y, 'r) array_lib \<Rightarrow> 'a option mlp \<Rightarrow> 'a option mlp \<Rightarrow> 'x \<Rightarrow> 'y \<Rightarrow> error + 'r" where
  "loss E diff_model static_model x y =
     (case eqx_combine diff_model static_model of
        Inl e \<Rightarrow> Inl e
      | Inr model \<Rightarrow> Inr (mean_squared E y (vmap_call E model x)))"

text \<open>
  Modelled from the spec: \<open>equinox.filter_grad\<close> is not under src/ and the spec does
  not describe it; the notebook uses it to differentiate \<open>loss\<close> in its first argument.
  The function is run, and the result has the structure of that argument with a gradient
  at each of its floating-point array leaves and \<open>None\<close> at every other leaf.
\<close>

definition grad_leaf :: "('a, 'x, 'y, 'r) array_lib \<Rightarrow> 'a option \<Rightarrow> 'a \<Rightarrow> 'a option" where
  "grad_leaf E leaf g =
     (case leaf of None \<Rightarrow> None | Some v \<Rightarrow> if is_inexact_array E v then Some g else None)"

definition eqx_filter_grad ::
  "('a, 'x, 'y, 'r) array_lib \<Rightarrow> ('a option mlp \<Rightarrow> error + 'r) \<Rightarrow> 'a option mlp \<Rightarrow>
   error + 'a option mlp" where
  "eqx_filter_grad E f diff =
     (case f diff of
        Inl e \<Rightarrow> Inl e
      | Inr _ \<Rightarrow>
          Inr \<lparr>layers =
                 map (\<lambda>(i, l). \<lparr>weight = grad_leaf E (weight l) (autodiff E f diff (LayerWeight i)),
                                 bias = grad_leaf E (bias l) (autodiff E f diff (LayerBias i))\<rparr>)
                     (enumerate 0 (layers diff)),
               activation = grad_leaf E (activation diff) (autodiff E f diff ActivationLeaf),
               final_activation =
                 grad_leaf E (final_activation diff) (autodiff E f diff FinalActivationLeaf)\<rparr>)"

text \<open>
  Modelled from the spec: \<open>equinox.apply_updates\<close> is not under src/ and the spec does
  not describe it. Each leaf of the model is replaced by \<open>leaf + update\<close>, and is kept
  as it is where the update is \<open>None\<close>.
\<close>

definition eqx_apply_updates ::
  "('a, 'x, 'y, 'r) array_lib \<Rightarrow> 'a mlp \<Rightarrow> 'a option mlp \<Rightarrow> error + 'a mlp" where
  "eqx_apply_updates E model updates =
     jtu_tree_map2 (\<lambda>u p. case u of None \<Rightarrow> p | Some d \<Rightarrow> add E p d) updates model"

text \<open>
  An optimiser of \<open>optax\<close> is a pair of functions. \<open>optax.sgd(learning_rate)\<close> keeps no
  state and scales each gradient leaf by \<open>-learning_rate\<close>; the scaling of one array is a
  parameter. A \<open>None\<close> in the gradients is an empty subtree and stays \<open>None\<close>.
\<close>

record ('g, 'u, 'p, 'o) optimizer =
  init :: "'p \<Rightarrow> 'o"
  update :: "'g \<Rightarrow> 'o \<Rightarrow> 'u \<times> 'o"

definition optax_sgd :: "('a \<Rightarrow> 'a) \<Rightarrow> ('a option mlp, 'a option mlp, 'a mlp, unit) optimizer" where
  "optax_sgd scale =
     \<lparr>init = (\<lambda>params. ()),
      update = (\<lambda>grads opt_state. (jtu_tree_map (map_option scale) grads, opt_state))\<rparr>"

text \<open>
  \<open>make_step\<close> of frozen\_layer.ipynb. \<open>filter_spec\<close> and \<open>optim\<close> are locals of the
  enclosing \<open>main\<close>; \<open>eqx.filter_jit\<close> compiles the function and does not change what
  it returns.
\<close>

definition make_step ::
  "('a, 'x, 'y, 'r) array_lib \<Rightarrow> bool mlp \<Rightarrow>
   ('a option mlp, 'a option mlp, 'a mlp, 'o) optimizer \<Rightarrow>
   'a mlp \<Rightarrow> 'x \<Rightarrow> 'y \<Rightarrow> 'o \<Rightarrow> error + 'a mlp \<times> 'o" where
  "make_step E filter_spec optim model x y opt_state =
     (case eqx_partition model filter_spec of
        Inl e \<Rightarrow> Inl e
      | Inr (diff_model, static_model) \<Rightarrow>
          (case eqx_filter_grad E (\<lambda>d. loss E d static_model x y) diff_model of
             Inl e \<Rightarrow> Inl e
           | Inr grads \<Rightarrow>
               (case update optim grads opt_state of
                  (updates, opt_state') \<Rightarrow>
                    (case eqx_apply_updates E model updates of
                       Inl e \<Rightarrow> Inl e
                     | Inr model' \<Rightarrow> Inr (model', opt_state')))))"

text \<open>
  \<open>get_data\<close>: \<open>x\<close> has \<open>dataset_size\<close> rows drawn by \<open>jrandom.normal\<close> (a
  parameter), and \<open>y = 5 * x - 2\<close> is computed row by row.
\<close>

record ('a, 'k) data_lib =
  jr_normal :: "'k \<Rightarrow> int \<Rightarrow> 'a array"
  times5_minus2 :: "'a \<Rightarrow> 'a"

definition get_data :: "('a, 'k) data_lib \<Rightarrow> int \<Rightarrow> 'k \<Rightarrow> 'a array list" where
  "get_data D dataset_size' key' =
     (let x = jr_normal D key' dataset_size';
          y = map (times5_minus2 D) x
      in [x, y])"

section \<open>stateful.ipynb\<close>

text \<open>The class \<open>Model\<close>: five layers of the library.\<close>

record ('bn, 'sn, 'lin) Model =
  norm1 :: 'bn
  spectral_linear :: 'sn
  norm2 :: 'bn
  linear1 :: 'lin
  linear2 :: 'lin

text \<open>
  What the notebook calls in the libraries: the three kinds of layer, \<open>jax.nn.relu\<close>,
  \<open>jax.vmap\<close> with the axes of \<open>compute_loss\<close>,
  \<open>jnp.mean((pred_ys - ys) ** 2)\<close>, the derivative of a scalar function of the model,
  and \<open>eqx.apply_updates\<close>.
\<close>

record ('bn, 'sn, 'lin, 'v, 's, 'g, 'u) nn_lib =
  batch_norm :: "'bn \<Rightarrow> 'v \<Rightarrow> 's \<Rightarrow> 'v \<times> 's"
  spectral_norm :: "'sn \<Rightarrow> 'v \<Rightarrow> 's \<Rightarrow> 'v \<times> 's"
  linear_layer :: "'lin \<Rightarrow> 'v \<Rightarrow> 'v"
  relu :: "'v \<Rightarrow> 'v"
  vmap_batch :: "('v \<Rightarrow> 's \<Rightarrow> 'v \<times> 's) \<Rightarrow> 'v \<Rightarrow> 's \<Rightarrow> 'v \<times> 's"
  mean_sq :: "'v \<Rightarrow> 'v \<Rightarrow> 'v"
  grad_of :: "(('bn, 'sn, 'lin) Model \<Rightarrow> 'v) \<Rightarrow> ('bn, 'sn, 'lin) Model \<Rightarrow> 'g"
  apply_updates :: "('bn, 'sn, 'lin) Model \<Rightarrow> 'u \<Rightarrow> ('bn, 'sn, 'lin) Model"

text \<open>\<open>Model.__call__\<close>.\<close>

definition Model_call ::
  "('bn, 'sn, 'lin, 'v, 's, 'g, 'u) nn_lib \<Rightarrow> ('bn, 'sn, 'lin) Model \<Rightarrow> 'v \<Rightarrow> 's \<Rightarrow> 'v \<times> 's" where
  "Model_call N self x state =
     (let (x, state) = batch_norm N (norm1 self) x state;
          (x, state) = spectral_norm N (spectral_linear self) x state;
          x = relu N x;
          (x, state) = batch_norm N (norm2 self) x state;
          x = linear_layer N (linear1 self) x;
          x = relu N x;
          x = linear_layer N (linear2 self) x
      in (x, state))"

definition compute_loss ::
  "('bn, 'sn, 'lin, 'v, 's, 'g, 'u) nn_lib \<Rightarrow> ('bn, 'sn, 'lin) Model \<Rightarrow> 's \<Rightarrow> 'v \<Rightarrow> 'v \<Rightarrow>
   'v \<times> 's" where
  "compute_loss N model state xs ys =
     (let batch_model = vmap_batch N (Model_call N model);
          (pred_ys, state) = batch_model xs state;
          loss' = mean_sq N pred_ys ys
      in (loss', state))"






section \<open>init\_apply.ipynb\<close>

text \<open>
  Where an exception comes from: a statement of the notebook itself, one of the
  functions of equinox modelled here, or a call into the libraries that are parameters.
\<close>

datatype 'e raised = Own error | Equinox error | Library 'e

text \<open>
  The library calls of this notebook can raise, each with an exception of the library:
  \<open>jrandom.PRNGKey(seed)\<close>, \<open>eqx.nn.MLP(...)\<close>, \<open>model(x)\<close>, \<open>jnp.arange(in_size)\<close>,
  and the truth value of \<open>y1 != y2\<close> that the \<open>assert\<close> asks for.
  \<open>eqx.is_inexact_array\<close> answers for any leaf, and \<open>p + 1\<close> is only applied to the
  floating-point arrays that \<open>params\<close> holds.
\<close>

record ('a, 'x, 'y, 'k, 'e) init_apply_lib =
  PRNGKey :: "int \<Rightarrow> 'e + 'k"
  MLP :: "int \<Rightarrow> int \<Rightarrow> int \<Rightarrow> int \<Rightarrow> 'k \<Rightarrow> 'e + 'a mlp"
  is_inexact :: "'a \<Rightarrow> bool"
  call_model :: "'a option mlp \<Rightarrow> 'x \<Rightarrow> 'e + 'y"
  arange :: "int \<Rightarrow> 'e + 'x"
  plus_one :: "'a \<Rightarrow> 'a"
  not_equal_truth :: "'y \<Rightarrow> 'y \<Rightarrow> 'e + bool"

text \<open>
  Modelled from the spec: \<open>equinox.partition\<close> with a function as the filter is not
  under src/ (see \<open>eqx_partition\<close>). The function decides leaf by leaf.
\<close>

definition eqx_partition_by :: "('a \<Rightarrow> bool) \<Rightarrow> 'a mlp \<Rightarrow> 'a option mlp \<times> 'a option mlp" where
  "eqx_partition_by p pytree =
     (jtu_tree_map (\<lambda>x. if p x then Some x else None) pytree,
      jtu_tree_map (\<lambda>x. if p x then None else Some x) pytree)"

definition make_mlp ::
  "('a, 'x, 'y, 'k, 'e) init_apply_lib \<Rightarrow> int \<Rightarrow> int \<Rightarrow> int \<Rightarrow> int \<Rightarrow> 'k \<Rightarrow>
   'e raised + (unit \<Rightarrow> 'a option mlp) \<times> ('a option mlp \<Rightarrow> 'x \<Rightarrow> 'e raised + 'y)" where
  "make_mlp I in_size out_size width_size depth key' =
     (case MLP I in_size out_size width_size depth key' of
        Inl e \<Rightarrow> Inl (Library e)
      | Inr mlp' \<Rightarrow>
          (let (params, static) = eqx_partition_by (is_inexact I) mlp';
               init_fn = (\<lambda>_. params);
               apply_fn = (\<lambda>params' x.
                             case eqx_combine params' static of
                               Inl e \<Rightarrow> Inl (Equinox e)
                             | Inr model \<Rightarrow>
                                 (case call_model I model x of
                                    Inl e \<Rightarrow> Inl (Library e)
                                  | Inr y \<Rightarrow> Inr y))
           in Inr (init_fn, apply_fn)))"

text \<open>
  \<open>main\<close> of init\_apply.ipynb, statement by statement. \<open>None\<close> is not a leaf for
  \<open>jtu.tree_map\<close>, so \<open>p + 1\<close> is applied to the leaves that \<open>params\<close> has. The
  \<open>assert\<close> raises when the truth value of \<open>y1 != y2\<close> is false.
\<close>

definition init_apply_main ::
  "('a, 'x, 'y, 'k, 'e) init_apply_lib \<Rightarrow> int \<Rightarrow> int \<Rightarrow> 'e raised + unit" where
  "init_apply_main I in_size seed =
     (case PRNGKey I seed of
        Inl e \<Rightarrow> Inl (Library e)
      | Inr key' \<Rightarrow>
          (case make_mlp I in_size 1 8 1 key' of
             Inl r \<Rightarrow> Inl r
           | Inr (init_fn, apply_fn) \<Rightarrow>
               (case arange I in_size of
                  Inl e \<Rightarrow> Inl (Library e)
                | Inr x \<Rightarrow>
                    (let params = init_fn () in
                     case apply_fn params x of
                       Inl r \<Rightarrow> Inl r
                     | Inr y1 \<Rightarrow>
                         (let params = jtu_tree_map (map_option (plus_one I)) params in
                          case apply_fn params x of
                            Inl r \<Rightarrow> Inl r
                          | Inr y2 \<Rightarrow>
                              (case not_equal_truth I y1 y2 of
                                 Inl e \<Rightarrow> Inl (Library e)
                               | Inr truth \<Rightarrow>
                                   if truth then Inr () else Inl (Own AssertionError)))))))"

section \<open>The documents\<close>

text \<open>
  A notebook is a JSON document. The tree of mkdocs.yml is made of the same kinds of
  node (mappings, sequences, strings, integers, booleans), so one type serves for both;
  a mapping keeps the order of its keys.
\<close>

datatype json =
  JNull
| JBool bool
| JNumber int
| JString string
| JArray "json list"
| JObject "(string \<times> json) list"

fun field :: "string \<Rightarrow> json \<Rightarrow> json option" where
  "field k (JObject kvs) = map_of kvs k"
| "field k _ = None"

definition has_field :: "string \<Rightarrow> json \<Rightarrow> bool" where
  "has_field k doc = (case field k doc of Some _ \<Rightarrow> True | None \<Rightarrow> False)"

definition cells_of :: "json \<Rightarrow> json list" where
  "cells_of nb = (case field ''cells'' nb of Some (JArray cs) \<Rightarrow> cs | _ \<Rightarrow> [])"

text \<open>docs/examples/stateful.ipynb.\<close>

definition nb_stateful :: json where
  "nb_stateful =
     JObject [
       (''cells'', JArray [
         JObject [
           (''cell_type'', JString ''markdown''),
           (''id'', JString ''feef57f0-b351-46af-821d-cf43bcbaf60d''),
           (''metadata'', JObject []),
           (''source'', JArray [
             JString ''# Stateful operations (e.g. BatchNorm)\<newline>'',
             JString ''\<newline>'',
             JString ''Some layers, such as [`equinox.nn.BatchNorm`][] are sometimes called \"stateful\": this refers to the fact that they take an additional input (in the case of BatchNorm, the running statistics) and return an additional output (the updated running statistics).\<newline>'',
             JString ''\<newline>'',
             JString ''This just means that we need to plumb an extra input and output through our models. This example demonstrates both [`equinox.nn.BatchNorm`][] and [`equinox.nn.SpectralNorm`][].\<newline>'',
             JString ''\<newline>'',
             JString ''See also the [stateful API reference](../api/nn/stateful.md).\<newline>'',
             JString ''\<newline>'',
             JString ''This example is available as a Jupyter notebook [here](https://github.com/patrick-kidger/equinox/blob/main/docs/examples/stateful.ipynb).''])],
         JObject [
           (''cell_type'', JString ''code''),
           (''execution_count'', JNumber 1),
           (''id'', JString ''c8e60412-cf59-4ba6-bbdb-3117e914f949''),
           (''metadata'', JObject [
             (''tags'', JArray [])]),
           (''outputs'', JArray []),
           (''source'', JArray [
             JString ''import equinox as eqx\<newline>'',
             JString ''import jax\<newline>'',
             JString ''import jax.numpy as jnp\<newline>'',
             JString ''import jax.random as jr\<newline>'',
             JString ''import optax  # https://github.com/deepmind/optax''])],
         JObject [
           (''cell_type'', JString ''code''),
           (''execution_count'', JNumber 2),
           (''id'', JString ''c1c7d0d5-26bf-405b-a208-6cda4c12f8ff''),
           (''metadata'', JObject []),
           (''outputs'', JArray []),
           (''source'', JArray [
             JString ''# This model is just a weird mish-mash of stateful and non-stateful layers for\<newline>'',
             JString ''# demonstration purposes, it isn't doing any clever.\<newline>'',
             JString ''class Model(eqx.Module):\<newline>'',
             JString ''    norm1: eqx.nn.BatchNorm\<newline>'',
             JString ''    spectral_linear: eqx.nn.SpectralNorm[eqx.nn.Linear]\<newline>'',
             JString ''    norm2: eqx.nn.BatchNorm\<newline>'',
             JString ''    linear1: eqx.nn.Linear\<newline>'',
             JString ''    linear2: eqx.nn.Linear\<newline>'',
             JString ''\<newline>'',
             JString ''    def __init__(self, key):\<newline>'',
             JString ''        key1, key2, key3, key4 = jr.split(key, 4)\<newline>'',
             JString ''        self.norm1 = eqx.nn.BatchNorm(input_size=3, axis_name=\"batch\")\<newline>'',
             JString ''        self.spectral_linear = eqx.nn.SpectralNorm(\<newline>'',
             JString ''            layer=eqx.nn.Linear(in_features=3, out_features=32, key=key1),\<newline>'',
             JString ''            weight_name=\"weight\",\<newline>'',
             JString ''            key=key2,\<newline>'',
             JString ''        )\<newline>'',
             JString ''        self.norm2 = eqx.nn.BatchNorm(input_size=32, axis_name=\"batch\")\<newline>'',
             JString ''        self.linear1 = eqx.nn.Linear(in_features=32, out_features=32, key=key3)\<newline>'',
             JString ''        self.linear2 = eqx.nn.Linear(in_features=32, out_features=3, key=key4)\<newline>'',
             JString ''\<newline>'',
             JString ''    def __call__(self, x, state):\<newline>'',
             JString ''        x, state = self.norm1(x, state)\<newline>'',
             JString ''        x, state = self.spectral_linear(x, state)\<newline>'',
             JString ''        x = jax.nn.relu(x)\<newline>'',
             JString ''        x, state = self.norm2(x, state)\<newline>'',
             JString ''        x = self.linear1(x)\<newline>'',
             JString ''        x = jax.nn.relu(x)\<newline>'',
             JString ''        x = self.linear2(x)\<newline>'',
             JString ''        return x, state''])],
         JObject [
           (''cell_type'', JString ''markdown''),
           (''id'', JString ''2b931647-01ff-4eb9-972f-55d3d50771c6''),
           (''metadata'', JObject []),
           (''source'', JArray [
             JString ''We see from the above that we just define our models like normal. As advertised, we just need to thread the additional `state` object in and out of every call. An updated state object is returned.\<newline>'',
             JString ''\<newline>'',
             JString ''There's really nothing special here about stateful layers. Equinox isn't special-casing them in any way. We thread `state` in and out, just like we're thread `x` in and out. In fact calling it \"state\" is really just a matter of how it's advertised!\<newline>'',
             JString ''\<newline>'',
             JString ''---\<newline>'',
             JString ''\<newline>'',
             JString ''Alright, now let's see how we might train this model. This is also much like normal.\<newline>'',
             JString ''\<newline>'',
             JString ''Note the use of `in_axes` and `out_axes`: our data is batched, but our model state isn't batched -- just like how our model parameters isn't batched.\<newline>'',
             JString ''\<newline>'',
             JString ''Note how the `axis_name` argument matches the `axis_name` argument that the `BatchNorm` layers were initialised with. This tells `BatchNorm` which vmap'd axis it should compute statistics over. (This is a detail specific to `BatchNorm`, and is unrelated to stateful operations in general.)''])],
         JObject [
           (''cell_type'', JString ''code''),
           (''execution_count'', JNumber 3),
           (''id'', JString ''b8300043-aa88-4676-8501-ff338f1e741b''),
           (''metadata'', JObject []),
           (''outputs'', JArray []),
           (''source'', JArray [
             JString ''def compute_loss(model, state, xs, ys):\<newline>'',
             JString ''    batch_model = jax.vmap(\<newline>'',
             JString ''        model, axis_name=\"batch\", in_axes=(0, None), out_axes=(0, None)\<newline>'',
             JString ''    )\<newline>'',
             JString ''    pred_ys, state = batch_model(xs, state)\<newline>'',
             JString ''    loss = jnp.mean((pred_ys - ys) ** 2)\<newline>'',
             JString ''    return loss, state\<newline>'',
             JString ''\<newline>'',
             JString ''\<newline>'',
             JString ''@eqx.filter_jit\<newline>'',
             JString ''def make_step(model, state, opt_state, xs, ys):\<newline>'',
             JString ''    grads, state = eqx.filter_grad(compute_loss, has_aux=True)(model, state, xs, ys)\<newline>'',
             JString ''    updates, opt_state = optim.update(grads, opt_state)\<newline>'',
             JString ''    model = eqx.apply_updates(model, updates)\<newline>'',
             JString ''    return model, state, opt_state''])],
         JObject [
           (''cell_type'', JString ''markdown''),
           (''id'', JString ''d85113ae-7d63-4051-83bd-e9e921dfcae1''),
           (''metadata'', JObject []),
           (''source'', JArray [
             JString ''---\<newline>'',
             JString ''\<newline>'',
             JString ''And now, let's see how we initialise this model, and initialise its state.''])],
         JObject [
           (''cell_type'', JString ''code''),
           (''execution_count'', JNumber 4),
           (''id'', JString ''3a7f49fd-9b91-462a-b1d5-dc694f56411e''),
           (''metadata'', JObject [
             (''tags'', JArray [])]),
           (''outputs'', JArray []),
           (''source'', JArray [
             JString ''dataset_size = 10\<newline>'',
             JString ''learning_rate = 3e-4\<newline>'',
             JString ''steps = 5\<newline>'',
             JString ''seed = 5678\<newline>'',
             JString ''\<newline>'',
             JString ''key = jr.PRNGKey(seed)\<newline>'',
             JString ''mkey, xkey, xkey2 = jr.split(key, 3)\<newline>'',
             JString ''\<newline>'',
             JString ''model, state = eqx.nn.make_with_state(Model)(mkey)\<newline>'',
             JString ''\<newline>'',
             JString ''xs = jr.normal(xkey, (dataset_size, 3))\<newline>'',
             JString ''ys = jnp.sin(xs) + 1\<newline>'',
             JString ''optim = optax.adam(learning_rate)\<newline>'',
             JString ''opt_state = optim.init(eqx.filter(model, eqx.is_inexact_array))\<newline>'',
             JString ''\<newline>'',
             JString ''for _ in range(steps):\<newline>'',
             JString ''    # Full-batch gradient descent in this simple example.\<newline>'',
             JString ''    model, state, opt_state = make_step(model, state, opt_state, xs, ys)''])],
         JObject [
           (''cell_type'', JString ''markdown''),
           (''id'', JString ''9c2135ba-07dc-4ce7-89c1-105bd699e78d''),
           (''metadata'', JObject []),
           (''source'', JArray [
             JString ''!!! Info \"What is `eqx.nn.make_with_state` doing?\"\<newline>'',
             JString ''\<newline>'',
             JString ''    Here we come to the only interesting bit about using stateful layers!\<newline>'',
             JString ''\<newline>'',
             JString ''    When we initialise the model -- e.g. if we were to call `Model(mkey)` directly -- then the model PyTree would be initialised containing both (a) the initial parameters, and (b) the initial state. So `make_with_state` simply calls this, and then separates these two things. The returned `model` is a PyTree holding all the initial parameters (just like any other model), and `state` is a PyTree holding the initial state.\<newline>'',
             JString ''\<newline>'',
             JString ''---\<newline>'',
             JString ''\<newline>'',
             JString ''Finally, let's use our trained model to perform inference.\<newline>'',
             JString ''\<newline>'',
             JString ''Remember to set the inference flag! Some layers have different behaviour between training and inference, and `BatchNorm` is one of these. (This is a detail specific to layers like `BatchNorm` and [`equinox.nn.Dropout`][], and is unrelated to stateful operations in general.)\<newline>'',
             JString ''\<newline>'',
             JString ''We also fix the final state in the model, using [`equinox.Partial`][]. The resulting `inference_model` is a PyTree (specifically, an `equinox.Partial`) containing both `model` and `state`.''])],
         JObject [
           (''cell_type'', JString ''code''),
           (''execution_count'', JNumber 5),
           (''id'', JString ''c53cffd0-afd2-49c3-aa21-79eca5792598''),
           (''metadata'', JObject []),
           (''outputs'', JArray []),
           (''source'', JArray [
             JString ''inference_model = eqx.nn.inference_mode(model)\<newline>'',
             JString ''inference_model = eqx.Partial(inference_model, state=state)\<newline>'',
             JString ''\<newline>'',
             JString ''\<newline>'',
             JString ''@eqx.filter_jit\<newline>'',
             JString ''def evaluate(model, xs):\<newline>'',
             JString ''    # discard state\<newline>'',
             JString ''    out, _ = jax.vmap(model)(xs)\<newline>'',
             JString ''    return out\<newline>'',
             JString ''\<newline>'',
             JString ''\<newline>'',
             JString ''test_dataset_size = 5\<newline>'',
             JString ''test_xs = jr.normal(xkey2, (test_dataset_size, 3))\<newline>'',
             JString ''pred_test_ys = evaluate(inference_model, test_xs)''])],
         JObject [
           (''cell_type'', JString ''markdown''),
           (''id'', JString ''d22e4395-9006-465e-ba0b-a4b0d8131bd7''),
           (''metadata'', JObject []),
           (''source'', JArray [
             JString ''Here, we don't need the updated state object that is produced, so we just discard it.''])]]),
       (''metadata'', JObject [
         (''kernelspec'', JObject [
           (''display_name'', JString ''py311''),
           (''language'', JString ''python''),
           (''name'', JString ''py311'')]),
         (''language_info'', JObject [
           (''codemirror_mode'', JObject [
             (''name'', JString ''ipython''),
             (''version'', JNumber 3)]),
           (''file_extension'', JString ''.py''),
           (''mimetype'', JString ''text/x-python''),
           (''name'', JString ''python''),
           (''nbconvert_exporter'', JString ''python''),
           (''pygments_lexer'', JString ''ipython3''),
           (''version'', JString ''3.11.3'')])]),
       (''nbformat'', JNumber 4),
       (''nbformat_minor'', JNumber 5)]"

text \<open>docs/examples/frozen\_layer.ipynb.\<close>

definition nb_frozen_layer :: json where
  "nb_frozen_layer =
     JObject [
       (''cells'', JArray [
         JObject [
           (''cell_type'', JString ''markdown''),
           (''id'', JString ''71f37252-8e84-4521-b9c7-7fb107f599c1''),
           (''metadata'', JObject []),
           (''source'', JArray [
             JString ''# Freezing parameters\<newline>'',
             JString ''\<newline>'',
             JString ''In this example, we demonstrate how to only train some parameters and freeze the rest.\<newline>'',
             JString ''\<newline>'',
             JString ''This example is available as a Jupyter notebook [here](https://github.com/patrick-kidger/equinox/blob/main/docs/examples/frozen_layer.ipynb).''])],
         JObject [
           (''cell_type'', JString ''code''),
           (''execution_count'', JNumber 1),
           (''id'', JString ''9e127af2-03ac-47d7-b185-4b6b40d4cb7a''),
           (''metadata'', JObject []),
           (''outputs'', JArray []),
           (''source'', JArray [
             JString ''import equinox as eqx\<newline>'',
             JString ''import jax\<newline>'',
             JString ''import jax.numpy as jnp\<newline>'',
             JString ''import jax.random as jrandom\<newline>'',
             JString ''import jax.tree_util as jtu\<newline>'',
             JString ''import optax  # https://github.com/deepmind/optax''])],
         JObject [
           (''cell_type'', JString ''code''),
           (''execution_count'', JNumber 2),
           (''id'', JString ''a5732648-7126-465f-b8b2-8d18a325f7c8''),
           (''metadata'', JObject []),
           (''outputs'', JArray []),
           (''source'', JArray [
             JString ''# Toy data\<newline>'',
             JString ''def get_data(dataset_size, *, key):\<newline>'',
             JString ''    x = jrandom.normal(key, (dataset_size, 1))\<newline>'',
             JString ''    y = 5 * x - 2\<newline>'',
             JString ''    return x, y\<newline>'',
             JString ''\<newline>'',
             JString ''\<newline>'',
             JString ''# Toy dataloader\<newline>'',
             JString ''def dataloader(arrays, batch_size, *, key):\<newline>'',
             JString ''    dataset_size = arrays[0].shape[0]\<newline>'',
             JString ''    assert all(array.shape[0] == dataset_size for array in arrays)\<newline>'',
             JString ''    indices = jnp.arange(dataset_size)\<newline>'',
             JString ''    while True:\<newline>'',
             JString ''        perm = jrandom.permutation(key, indices)\<newline>'',
             JString ''        (key,) = jrandom.split(key, 1)\<newline>'',
             JString ''        start = 0\<newline>'',
             JString ''        end = batch_size\<newline>'',
             JString ''        while end < dataset_size:\<newline>'',
             JString ''            batch_perm = perm[start:end]\<newline>'',
             JString ''            yield tuple(array[batch_perm] for array in arrays)\<newline>'',
             JString ''            start = end\<newline>'',
             JString ''            end = start + batch_size''])],
         JObject [
           (''cell_type'', JString ''markdown''),
           (''id'', JString ''1f8d3f12-9a34-4609-984d-adfce11a3e7a''),
           (''metadata'', JObject []),
           (''source'', JArray [
             JString ''Here, we:\<newline>'',
             JString ''\<newline>'',
             JString ''1. Set up a model. In this case, an MLP.\<newline>'',
             JString ''2. Set up a `filter_spec`. This will be a PyTree of the same structure as the model, with `False` on every leaf -- except for the leaves corresponding to the final layer, which we set to `True`.\<newline>'',
             JString ''3. Specify how to make a step. We'll separate out the leaves we want to differentiate from the leaves that we want to leave alone by using [`equinox.partition`][].''])],
         JObject [
           (''cell_type'', JString ''code''),
           (''execution_count'', JNumber 5),
           (''id'', JString ''a8dbd053-6695-469c-8734-bd4326c81add''),
           (''metadata'', JObject []),
           (''outputs'', JArray []),
           (''source'', JArray [
             JString ''def main(\<newline>'',
             JString ''    dataset_size=10000,\<newline>'',
             JString ''    batch_size=256,\<newline>'',
             JString ''    learning_rate=3e-3,\<newline>'',
             JString ''    steps=1000,\<newline>'',
             JString ''    width_size=8,\<newline>'',
             JString ''    depth=1,\<newline>'',
             JString ''    seed=5678,\<newline>'',
             JString ''):\<newline>'',
             JString ''    data_key, loader_key, model_key = jrandom.split(jrandom.PRNGKey(seed), 3)\<newline>'',
             JString ''    data = get_data(dataset_size, key=data_key)\<newline>'',
             JString ''    data_iter = dataloader(data, batch_size, key=loader_key)\<newline>'',
             JString ''\<newline>'',
             JString ''    # Step 1\<newline>'',
             JString ''    model = eqx.nn.MLP(\<newline>'',
             JString ''        in_size=1, out_size=1, width_size=width_size, depth=depth, key=model_key\<newline>'',
             JString ''    )\<newline>'',
             JString ''\<newline>'',
             JString ''    # Step 2\<newline>'',
             JString ''    filter_spec = jtu.tree_map(lambda _: False, model)\<newline>'',
             JString ''    filter_spec = eqx.tree_at(\<newline>'',
             JString ''        lambda tree: (tree.layers[-1].weight, tree.layers[-1].bias),\<newline>'',
             JString ''        filter_spec,\<newline>'',
             JString ''        replace=(True, True),\<newline>'',
             JString ''    )\<newline>'',
             JString ''\<newline>'',
             JString ''    # Step 3\<newline>'',
             JString ''    @eqx.filter_jit\<newline>'',
             JString ''    def make_step(model, x, y, opt_state):\<newline>'',
             JString ''        @eqx.filter_grad\<newline>'',
             JString ''        def loss(diff_model, static_model, x, y):\<newline>'',
             JString ''            model = eqx.combine(diff_model, static_model)\<newline>'',
             JString ''            pred_y = jax.vmap(model)(x)\<newline>'',
             JString ''            return jnp.mean((y - pred_y) ** 2)\<newline>'',
             JString ''\<newline>'',
             JString ''        diff_model, static_model = eqx.partition(model, filter_spec)\<newline>'',
             JString ''        grads = loss(diff_model, static_model, x, y)\<newline>'',
             JString ''        updates, opt_state = optim.update(grads, opt_state)\<newline>'',
             JString ''        model = eqx.apply_updates(model, updates)\<newline>'',
             JString ''        return model, opt_state\<newline>'',
             JString ''\<newline>'',
             JString ''    # And now let's train for a short while -- in exactly the usual way -- and see what\<newline>'',
             JString ''    # happens. We keep the original model around to compare to later.\<newline>'',
             JString ''    original_model = model\<newline>'',
             JString ''    optim = optax.sgd(learning_rate)\<newline>'',
             JString ''    opt_state = optim.init(model)\<newline>'',
             JString ''    for step, (x, y) in zip(range(steps), data_iter):\<newline>'',
             JString ''        model, opt_state = make_step(model, x, y, opt_state)\<newline>'',
             JString ''    print(\<newline>'',
             JString (''        f\"Parameters of first layer at initialisation:'' @ [CHR 0x5C] @ ''n\"\<newline>''),
             JString (''        f\"{jtu.tree_leaves(original_model.layers[0])}'' @ [CHR 0x5C] @ ''n\"\<newline>''),
             JString ''    )\<newline>'',
             JString ''    print(\<newline>'',
             JString (''        f\"Parameters of first layer at end of training:'' @ [CHR 0x5C] @ ''n\"\<newline>''),
             JString (''        f\"{jtu.tree_leaves(model.layers[0])}'' @ [CHR 0x5C] @ ''n\"\<newline>''),
             JString ''    )\<newline>'',
             JString ''    print(\<newline>'',
             JString (''        f\"Parameters of last layer at initialisation:'' @ [CHR 0x5C] @ ''n\"\<newline>''),
             JString (''        f\"{jtu.tree_leaves(original_model.layers[-1])}'' @ [CHR 0x5C] @ ''n\"\<newline>''),
             JString ''    )\<newline>'',
             JString ''    print(\<newline>'',
             JString (''        f\"Parameters of last layer at end of training:'' @ [CHR 0x5C] @ ''n\"\<newline>''),
             JString (''        f\"{jtu.tree_leaves(model.layers[-1])}'' @ [CHR 0x5C] @ ''n\"\<newline>''),
             JString ''    )''])],
         JObject [
           (''cell_type'', JString ''markdown''),
           (''id'', JString ''6e7c6894-f98e-46cc-9869-afe30ca40828''),
           (''metadata'', JObject []),
           (''source'', JArray [
             JString ''As we'll see, the parameters of the first layer remain unchanged throughout training. Just the parameters of the last layer are trained.''])],
         JObject [
           (''cell_type'', JString ''code''),
           (''execution_count'', JNumber 6),
           (''id'', JString ''b96e16eb-20f9-4219-92b0-fe13d04db9e9''),
           (''metadata'', JObject []),
           (''outputs'', JArray [
             JObject [
               (''name'', JString ''stdout''),
               (''output_type'', JString ''stream''),
               (''text'', JArray [
                 JString ''Parameters of first layer at initialisation:\<newline>'',
                 JString (''[DeviceArray(['' @ ''[-0.5500405 ],\<newline>''),
                 JString ''             [ 0.67074966],\<newline>'',
                 JString ''             [-0.9094155 ],\<newline>'',
                 JString ''             [-0.5518596 ],\<newline>'',
                 JString ''             [-0.1648488 ],\<newline>'',
                 JString ''             [ 0.98241615],\<newline>'',
                 JString ''             [-0.9118581 ],\<newline>'',
                 JString ''             [ 0.32483125]], dtype=float32), DeviceArray([ 0.8876705 ,  0.4363706 , -0.878813  ,  0.26387787,\<newline>'',
                 JString ''             -0.68248963, -0.9517925 , -0.21384668, -0.2857628 ],            dtype=float32)]\<newline>'',
                 JString ''\<newline>'',
                 JString ''Parameters of first layer at end of training:\<newline>'',
                 JString (''[DeviceArray(['' @ ''[-0.5500405 ],\<newline>''),
                 JString ''             [ 0.67074966],\<newline>'',
                 JString ''             [-0.9094155 ],\<newline>'',
                 JString ''             [-0.5518596 ],\<newline>'',
                 JString ''             [-0.1648488 ],\<newline>'',
                 JString ''             [ 0.98241615],\<newline>'',
                 JString ''             [-0.9118581 ],\<newline>'',
                 JString ''             [ 0.32483125]], dtype=float32), DeviceArray([ 0.8876705 ,  0.4363706 , -0.878813  ,  0.26387787,\<newline>'',
                 JString ''             -0.68248963, -0.9517925 , -0.21384668, -0.2857628 ],            dtype=float32)]\<newline>'',
                 JString ''\<newline>'',
                 JString ''Parameters of last layer at initialisation:\<newline>'',
                 JString (''[DeviceArray(['' @ ''[ 0.33031464,  0.16732198,  0.04151077, -0.01495699,\<newline>''),
                 JString ''              -0.00766617,  0.08186949,  0.33581698,  0.13139524]],            dtype=float32), DeviceArray([-0.05869024], dtype=float32)]\<newline>'',
                 JString ''\<newline>'',
                 JString ''Parameters of last layer at end of training:\<newline>'',
                 JString (''[DeviceArray(['' @ ''[-2.8348155 ,  3.3568215 , -0.767634  , -2.131908  ,\<newline>''),
                 JString ''              -0.00766617,  1.3563743 , -1.6294041 ,  0.60640407]],            dtype=float32), DeviceArray([-0.10058348], dtype=float32)]\<newline>'',
                 JString ''\<newline>''])]]),
           (''source'', JArray [
             JString ''main()''])]]),
       (''metadata'', JObject [
         (''kernelspec'', JObject [
           (''display_name'', JString ''py37''),
           (''language'', JString ''python''),
           (''name'', JString ''py37'')]),
         (''language_info'', JObject [
           (''codemirror_mode'', JObject [
             (''name'', JString ''ipython''),
             (''version'', JNumber 3)]),
           (''file_extension'', JString ''.py''),
           (''mimetype'', JString ''text/x-python''),
           (''name'', JString ''python''),
           (''nbconvert_exporter'', JString ''python''),
           (''pygments_lexer'', JString ''ipython3''),
           (''version'', JString ''3.8.13'')]),
         (''vscode'', JObject [
           (''interpreter'', JObject [
             (''hash'', JString ''110cc1dee26208153f2972f08a2ad52b6a56238dc66d48e87fb757ef2996db56'')])])]),
       (''nbformat'', JNumber 4),
       (''nbformat_minor'', JNumber 5)]"

text \<open>docs/examples/init\_apply.ipynb.\<close>

definition nb_init_apply :: json where
  "nb_init_apply =
     JObject [
       (''cells'', JArray [
         JObject [
           (''cell_type'', JString ''markdown''),
           (''id'', JString ''14148da3-23fb-480b-ae31-93878cda86fa''),
           (''metadata'', JObject []),
           (''source'', JArray [
             JString ''# Compatibility with init-apply libraries\<newline>'',
             JString ''\<newline>'',
             JString ''Existing JAX neural network libraries have sometimes followed the \"init/apply\" approach, in which the parameters of a network are initialised with a function `init()`, and then the forward pass through a model is specified with `apply()`. For example [Stax](https://jax.readthedocs.io/en/latest/jax.example_libraries.stax.html) follows this approach.\<newline>'',
             JString ''\<newline>'',
             JString ''As a result, some third-party libraries assume that your model is specified by an `init()` and an `apply()` function, and that the parameters returned from `init()` are all JIT-trace-able and grad-able.\<newline>'',
             JString ''\<newline>'',
             JString ''Equinox can be made to fit with this style very easily, like so.\<newline>'',
             JString ''\<newline>'',
             JString ''This example is available as a Jupyter notebook [here](https://github.com/patrick-kidger/equinox/blob/main/docs/examples/init_apply.ipynb).''])],
         JObject [
           (''cell_type'', JString ''code''),
           (''execution_count'', JNumber 1),
           (''id'', JString ''05bcc516-c80a-492b-af63-0e5dec66f438''),
           (''metadata'', JObject []),
           (''outputs'', JArray []),
           (''source'', JArray [
             JString ''import equinox as eqx\<newline>'',
             JString ''\<newline>'',
             JString ''\<newline>'',
             JString ''def make_mlp(in_size, out_size, width_size, depth, *, key):\<newline>'',
             JString ''    mlp = eqx.nn.MLP(\<newline>'',
             JString ''        in_size, out_size, width_size, depth, key=key\<newline>'',
             JString ''    )  # insert your model here\<newline>'',
             JString ''    params, static = eqx.partition(mlp, eqx.is_inexact_array)\<newline>'',
             JString ''\<newline>'',
             JString ''    def init_fn():\<newline>'',
             JString ''        return params\<newline>'',
             JString ''\<newline>'',
             JString ''    def apply_fn(_params, x):\<newline>'',
             JString ''        model = eqx.combine(_params, static)\<newline>'',
             JString ''        return model(x)\<newline>'',
             JString ''\<newline>'',
             JString ''    return init_fn, apply_fn''])],
         JObject [
           (''cell_type'', JString ''markdown''),
           (''id'', JString ''5965f2e9-483a-475e-b316-a595daf6eb0f''),
           (''metadata'', JObject []),
           (''source'', JArray [
             JString ''And that's all there is to it.\<newline>'',
             JString ''\<newline>'',
             JString ''Example usage:''])],
         JObject [
           (''cell_type'', JString ''code''),
           (''execution_count'', JNumber 2),
           (''id'', JString ''e25e63c7-3cb6-4727-9c28-0016b03acb87''),
           (''metadata'', JObject []),
           (''outputs'', JArray []),
           (''source'', JArray [
             JString ''import jax.numpy as jnp\<newline>'',
             JString ''import jax.random as jrandom\<newline>'',
             JString ''import jax.tree_util as jtu\<newline>'',
             JString ''\<newline>'',
             JString ''\<newline>'',
             JString ''def main(in_size=2, seed=5678):\<newline>'',
             JString ''    key = jrandom.PRNGKey(seed)\<newline>'',
             JString ''\<newline>'',
             JString ''    init_fn, apply_fn = make_mlp(\<newline>'',
             JString ''        in_size=in_size, out_size=1, width_size=8, depth=1, key=key\<newline>'',
             JString ''    )\<newline>'',
             JString ''\<newline>'',
             JString ''    x = jnp.arange(in_size)  # sample data\<newline>'',
             JString ''    params = init_fn()\<newline>'',
             JString ''    y1 = apply_fn(params, x)\<newline>'',
             JString ''    params = jtu.tree_map(lambda p: p + 1, params)  # \"stochastic gradient descent\"\<newline>'',
             JString ''    y2 = apply_fn(params, x)\<newline>'',
             JString ''    assert y1 != y2\<newline>'',
             JString ''\<newline>'',
             JString ''\<newline>'',
             JString ''main()''])]]),
       (''metadata'', JObject [
         (''kernelspec'', JObject [
           (''display_name'', JString ''jax0226''),
           (''language'', JString ''python''),
           (''name'', JString ''jax0226'')]),
         (''language_info'', JObject [
           (''codemirror_mode'', JObject [
             (''name'', JString ''ipython''),
             (''version'', JNumber 3)]),
           (''file_extension'', JString ''.py''),
           (''mimetype'', JString ''text/x-python''),
           (''name'', JString ''python''),
           (''nbconvert_exporter'', JString ''python''),
           (''pygments_lexer'', JString ''ipython3''),
           (''version'', JString ''3.8.12'')])]),
       (''nbformat'', JNumber 4),
       (''nbformat_minor'', JNumber 5)]"

text \<open>mkdocs.yml; comments are not part of the tree.\<close>

definition mkdocs_yml :: json where
  "mkdocs_yml =
     JObject [
       (''theme'', JObject [
         (''name'', JString ''material''),
         (''features'', JArray [
           JString ''navigation.sections'',
           JString ''toc.integrate'',
           JString ''header.autohide'',
           JString ''content.code.copy'']),
         (''palette'', JArray [
           JObject [
             (''scheme'', JString ''default''),
             (''primary'', JString ''white''),
             (''accent'', JString ''amber''),
             (''toggle'', JObject [
               (''icon'', JString ''material/weather-night''),
               (''name'', JString ''Switch to dark mode'')])],
           JObject [
             (''scheme'', JString ''slate''),
             (''primary'', JString ''black''),
             (''accent'', JString ''amber''),
             (''toggle'', JObject [
               (''icon'', JString ''material/weather-sunny''),
               (''name'', JString ''Switch to light mode'')])]]),
         (''icon'', JObject [
           (''repo'', JString ''fontawesome/brands/github''),
           (''logo'', JString ''material/circle-opacity'')]),
         (''favicon'', JString ''_static/favicon.png''),
         (''custom_dir'', JString ''docs/_overrides''),
         (''twitter_bluesky_name'', JString ''@PatrickKidger''),
         (''twitter_url'', JString ''https://twitter.com/PatrickKidger''),
         (''bluesky_url'', JString ''https://PatrickKidger.bsky.social'')]),
       (''site_name'', JString ''Equinox''),
       (''site_description'', JString ''The documentation for the Equinox software library.''),
       (''site_author'', JString ''Patrick Kidger''),
       (''site_url'', JString ''https://docs.kidger.site/equinox''),
       (''repo_url'', JString ''https://github.com/patrick-kidger/equinox''),
       (''repo_name'', JString ''patrick-kidger/equinox''),
       (''edit_uri'', JString []),
       (''strict'', JBool True),
       (''extra_javascript'', JArray [
         JString ''_static/mathjax.js'',
         JString ''https://cdn.jsdelivr.net/npm/mathjax@3/es5/tex-mml-chtml.js'']),
       (''extra_css'', JArray [
         JString ''_static/custom_css.css'']),
       (''markdown_extensions'', JArray [
         JObject [
           (''pymdownx.arithmatex'', JObject [
             (''generic'', JBool True)])],
         JString ''pymdownx.superfences'',
         JString ''pymdownx.details'',
         JObject [
           (''pymdownx.snippets'', JObject [
             (''base_path'', JString ''docs'')])],
         JString ''admonition'',
         JObject [
           (''toc'', JObject [
             (''permalink'', JString [CHR 0xC2, CHR 0xA4]),
             (''toc_depth'', JNumber 4)])]]),
       (''plugins'', JArray [
         JObject [
           (''search'', JObject [
             (''separator'', JString (''['' @ [CHR 0x5C] @ ''s'' @ [CHR 0x5C] @ ''-,:!='' @ [CHR 0x5C] @ ''['' @ [CHR 0x5C] @ '']()\"/]+|(?!'' @ [CHR 0x5C] @ ''b)(?=[A-Z][a-z])|'' @ [CHR 0x5C] @ ''.(?!'' @ [CHR 0x5C] @ ''d)|&[lg]t;''))])],
         JObject [
           (''include_exclude_files'', JObject [
             (''include'', JArray [
               JString ''.htaccess'']),
             (''exclude'', JArray [
               JString ''_overrides'',
               JString ''examples/.ipynb_checkpoints/'',
               JString ''examples/MNIST'',
               JString ''examples/bert_checkpoint.eqx''])])],
         JString ''ipynb'',
         JObject [
           (''hippogriffe'', JObject [
             (''extra_public_objects'', JArray [
               JString ''equinox.if_array'',
               JString ''jax.ShapeDtypeStruct'',
               JString ''jax.extend.core.ClosedJaxpr'',
               JString ''jax.Device'',
               JString ''jax.sharding.Sharding''])])],
         JObject [
           (''mkdocstrings'', JObject [
             (''handlers'', JObject [
               (''python'', JObject [
                 (''options'', JObject [
                   (''force_inspection'', JBool True),
                   (''heading_level'', JNumber 4),
                   (''inherited_members'', JBool True),
                   (''members_order'', JString ''source''),
                   (''show_bases'', JBool False),
                   (''show_if_no_docstring'', JBool True),
                   (''show_overloads'', JBool False),
                   (''show_root_heading'', JBool True),
                   (''show_signature_annotations'', JBool True),
                   (''show_source'', JBool False),
                   (''show_symbol_type_heading'', JBool True),
                   (''show_symbol_type_toc'', JBool True)])])])])]]),
       (''nav'', JArray [
         JString ''index.md'',
         JString ''all-of-equinox.md'',
         JObject [
           (''Examples'', JArray [
             JObject [
               (''Introductory'', JArray [
                 JString ''examples/mnist.ipynb'',
                 JString ''examples/train_rnn.ipynb''])],
             JObject [
               (''Advanced'', JArray [
                 JString ''examples/score_based_diffusion.ipynb'',
                 JString ''examples/bert.ipynb'',
                 JString ''examples/unet.ipynb'',
                 JString ''examples/vision_transformer.ipynb'',
                 JString ''examples/deep_convolutional_gan.ipynb''])],
             JObject [
               (''Features'', JArray [
                 JString ''examples/frozen_layer.ipynb'',
                 JString ''examples/init_apply.ipynb'',
                 JString ''examples/stateful.ipynb'',
                 JString ''examples/parallelism.ipynb'',
                 JString ''examples/serialisation.ipynb''])],
             JObject [
               (''Awesome list'', JString ''awesome-list.md'')]])],
         JObject [
           (''Basic API'', JArray [
             JObject [
               (''Modules'', JArray [
                 JString ''api/module/module.md'',
                 JString ''api/module/advanced_fields.md''])],
             JObject [
               (''Neural network layers'', JArray [
                 JString ''api/nn/linear.md'',
                 JString ''api/nn/conv.md'',
                 JString ''api/nn/rnn.md'',
                 JString ''api/nn/attention.md'',
                 JString ''api/nn/activations.md'',
                 JString ''api/nn/pool.md'',
                 JString ''api/nn/dropout.md'',
                 JString ''api/nn/normalisation.md'',
                 JString ''api/nn/embedding.md'',
                 JString ''api/nn/mlp.md'',
                 JString ''api/nn/sequential.md'',
                 JString ''api/nn/inference.md'',
                 JString ''api/nn/shared.md'',
                 JString ''api/nn/stateful.md''])],
             JString ''api/transformations.md'',
             JString ''api/manipulation.md''])],
         JObject [
           (''Advanced API'', JArray [
             JString ''api/caches.md'',
             JString ''api/debug.md'',
             JString ''api/enumerations.md'',
             JString ''api/errors.md'',
             JString ''api/pretty-printing.md'',
             JString ''api/serialisation.md''])],
         JObject [
           (''Misc'', JArray [
             JString ''faq.md'',
             JString ''tricks.md'',
             JString ''citation.md''])]])]"

subsection \<open>What the formats ask of the documents\<close>

text \<open>
  The top level of a notebook: a list \<open>cells\<close>, an object \<open>metadata\<close>,
  \<open>nbformat\<close> equal to 4 and a number \<open>nbformat_minor\<close>.
\<close>

definition notebook_top_level :: "json \<Rightarrow> bool" where
  "notebook_top_level nb =
     ((case field ''cells'' nb of Some (JArray _) \<Rightarrow> True | _ \<Rightarrow> False) \<and>
      (case field ''metadata'' nb of Some (JObject _) \<Rightarrow> True | _ \<Rightarrow> False) \<and>
      field ''nbformat'' nb = Some (JNumber 4) \<and>
      (case field ''nbformat_minor'' nb of Some (JNumber _) \<Rightarrow> True | _ \<Rightarrow> False))"

text \<open>
  A cell is a markdown cell or a code cell, and a code cell has a list \<open>outputs\<close> and
  a field \<open>execution_count\<close>.
\<close>

definition cell_ok :: "json \<Rightarrow> bool" where
  "cell_ok c =
     (case field ''cell_type'' c of
        Some (JString t) \<Rightarrow>
          if t = ''code''
          then (case field ''outputs'' c of Some (JArray _) \<Rightarrow> True | _ \<Rightarrow> False) \<and>
               has_field ''execution_count'' c
          else t = ''markdown''
      | _ \<Rightarrow> False)"

section \<open>Small instances\<close>

text \<open>
  Concrete libraries and inputs on which the definitions can be run: a permutation that
  rotates by the key, arrays of five rows, integer leaves of which those below 5 count as
  floating-point arrays.
\<close>

definition demo_jrandom :: "nat jrandom" where
  "demo_jrandom = \<lparr>jr_permutation = (\<lambda>k xs. rotate k xs), jr_split1 = Suc\<rparr>"

definition demo_arrays :: "nat array list" where
  "demo_arrays = [[10, 11, 12, 13, 14], [20, 21, 22, 23, 24]]"

definition demo_data_lib :: "(nat, nat) data_lib" where
  "demo_data_lib = \<lparr>jr_normal = (\<lambda>k n. map (\<lambda>i. k + i) [0..<nat n]),
                    times5_minus2 = (\<lambda>v. 5 * v - 2)\<rparr>"

definition demo_array_lib :: "(int, nat array, nat array, int) array_lib" where
  "demo_array_lib =
     \<lparr>is_inexact_array = (\<lambda>v. v < 5), add = (+), vmap_call = (\<lambda>model x. x),
      mean_squared = (\<lambda>y pred_y. 0), autodiff = (\<lambda>f d p. 1)\<rparr>"

definition demo_mlp :: "int mlp" where
  "demo_mlp = \<lparr>layers = [\<lparr>weight = 1, bias = 2\<rparr>, \<lparr>weight = 3, bias = 4\<rparr>],
               activation = 5, final_activation = 6\<rparr>"

definition demo_filter_spec :: "bool mlp" where
  "demo_filter_spec = \<lparr>layers = [\<lparr>weight = False, bias = False\<rparr>, \<lparr>weight = True, bias = True\<rparr>],
               activation = False, final_activation = False\<rparr>"






text \<open>
  A library for init\_apply.ipynb in which a negative \<open>in_size\<close> makes the constructor
  of the model raise.
\<close>

definition demo_init_apply_lib :: "(int, int, int, int, string) init_apply_lib" where
  "demo_init_apply_lib =
     \<lparr>PRNGKey = (\<lambda>seed. Inr seed),
      MLP = (\<lambda>in_size out_size width_size depth key.
               if in_size < 0 then Inl ''ValueError'' else Inr demo_mlp),
      is_inexact = (\<lambda>v. v < 5),
      call_model = (\<lambda>model x. case weight (last (layers model)) of
                                  Some w \<Rightarrow> Inr (w * x) | None \<Rightarrow> Inr 0),
      arange = (\<lambda>n. Inr n),
      plus_one = (\<lambda>p. p + 1),
      not_equal_truth = (\<lambda>y1 y2. Inr (y1 \<noteq> y2))\<rparr>"

section \<open>Properties\<close>

subsection \<open>Slices, permutations and the number of batches\<close>

lemma py_slice_nat:
  "s \<le> e \<Longrightarrow> e \<le> length xs \<Longrightarrow> py_slice xs (int s) (int e) = take (e - s) (drop s xs)"
  by (simp add: py_slice_def Let_def min_def nat_diff_distrib')

lemma perm_ok_length: "perm_ok L \<Longrightarrow> length (pass_perm L k n i) = n"
proof -
  assume "perm_ok L"
  then have "mset (pass_perm L k n i) = mset [0..<n]" by (simp add: perm_ok_def pass_perm_def)
  then have "size (mset (pass_perm L k n i)) = size (mset [0..<n])" by simp
  then show ?thesis by simp
qed

lemma perm_ok_distinct: "perm_ok L \<Longrightarrow> distinct (pass_perm L k n i)"
proof -
  assume "perm_ok L"
  then have "mset (pass_perm L k n i) = mset [0..<n]" by (simp add: perm_ok_def pass_perm_def)
  then show ?thesis by (metis distinct_upt mset_eq_imp_distinct_iff)
qed

lemma perm_ok_set: "perm_ok L \<Longrightarrow> set (pass_perm L k n i) = {0..<n}"
proof -
  assume "perm_ok L"
  then have "mset (pass_perm L k n i) = mset [0..<n]" by (simp add: perm_ok_def pass_perm_def)
  then have "set_mset (mset (pass_perm L k n i)) = set_mset (mset [0..<n])" by simp
  then show ?thesis by simp
qed

lemma gather_in_range:
  assumes "\<forall>i \<in> set idx. i < length a"
  shows "gather a idx = map (\<lambda>i. a ! i) idx"
proof -
  have "\<And>i. i \<in> set idx \<Longrightarrow> min i (length a - 1) = i" using assms by fastforce
  then show ?thesis by (simp add: gather_def)
qed

lemma gather_slice:
  assumes "perm_ok L" "\<forall>a \<in> set as. length a = n"
  shows "map (\<lambda>a. gather a (take b (drop s (pass_perm L k n i)))) as =
         map (\<lambda>a. map (\<lambda>i. a ! i) (take b (drop s (pass_perm L k n i)))) as"
proof (rule map_cong[OF refl])
  fix a assume a: "a \<in> set as"
  have "set (take b (drop s (pass_perm L k n i))) \<subseteq> {0..<n}"
    using perm_ok_set[OF assms(1), of k n i] set_take_subset set_drop_subset by fast
  then have "\<forall>j \<in> set (take b (drop s (pass_perm L k n i))). j < length a"
    using assms(2) a by auto
  then show "gather a (take b (drop s (pass_perm L k n i))) =
             map (\<lambda>i. a ! i) (take b (drop s (pass_perm L k n i)))"
    by (rule gather_in_range)
qed

lemma bpp_bounds:
  assumes "0 < b" "b < n"
  shows "0 < batches_per_pass n b" "batches_per_pass n b * b < n" "n \<le> batches_per_pass n b * b + b"
proof -
  let ?m = "(n - 1) div b"
  from assms have "b \<le> n - 1" by simp
  with assms show "0 < batches_per_pass n b" by (simp add: batches_per_pass_def div_greater_zero_iff)
  have "?m * b \<le> n - 1" by simp
  moreover have "n - 1 < n" using assms by simp
  ultimately show "batches_per_pass n b * b < n"
    unfolding batches_per_pass_def by (rule le_less_trans)
  have "n - 1 < ?m * b + b" using assms(1) by (metis add.commute dividend_less_div_times mult.commute)
  then show "n \<le> batches_per_pass n b * b + b" by (simp add: batches_per_pass_def)
qed

lemma mset_rotate_eq: "mset (rotate k xs) = mset xs"
proof -
  have "mset (rotate k xs) = mset (drop (k mod length xs) xs) + mset (take (k mod length xs) xs)"
    by (simp add: rotate_drop_take)
  also have "\<dots> = mset (take (k mod length xs) xs @ drop (k mod length xs) xs)"
    by (simp only: mset_append add.commute)
  finally show ?thesis by simp
qed

lemma demo_perm_ok: "perm_ok demo_jrandom"
  by (simp add: perm_ok_def demo_jrandom_def mset_rotate_eq)

subsection \<open>The generator, yield by yield\<close>

lemma yield_at:
  assumes "perm_ok L" "0 < b" "b < n"
    and f: "dataset_size f = int n" "perm f = pass_perm L k n i" "start f = int (j * b)"
       "end_idx f = int (j * b + b)" "arrays f = as"
    and j: "j < batches_per_pass n b"
    and len: "\<forall>a \<in> set as. length a = n"
  shows "run_to_yield L f = Some (map (\<lambda>a. map (\<lambda>i. a ! i) (take b (drop (j * b) (pass_perm L k n i)))) as, f)"
proof -
  have "Suc j * b \<le> batches_per_pass n b * b" using j by (intro mult_le_mono1) simp
  with bpp_bounds(2)[OF assms(2,3)] have lt: "j * b + b < n" by simp
  then have "py_slice (pass_perm L k n i) (int (j * b)) (int (j * b + b)) = take b (drop (j * b) (pass_perm L k n i))"
    using py_slice_nat[of "j * b" "j * b + b" "pass_perm L k n i"] perm_ok_length[OF assms(1), of k n i] by simp
  then have "batch_of f = map (\<lambda>a. gather a (take b (drop (j * b) (pass_perm L k n i)))) as"
    using f by (simp add: batch_of_def)
  then have "batch_of f = map (\<lambda>a. map (\<lambda>i. a ! i) (take b (drop (j * b) (pass_perm L k n i)))) as"
    by (simp only: gather_slice[OF assms(1) len])
  moreover have "end_idx f < dataset_size f"
    by (metis f(1) f(4) lt of_nat_less_iff)
  ultimately show ?thesis by (subst run_to_yield.simps) simp
qed

lemma header_ok:
  assumes "as \<noteq> []" "\<forall>a \<in> set as. length a = n"
  shows "header as b k = Inr \<lparr>arrays = as, batch_size = b, dataset_size = int n,
                     indices = [0..<n], key = k, perm = [], start = 0, end_idx = 0\<rparr>"
proof -
  from assms(1) obtain a0 rest where as: "as = a0 # rest" by (cases as) auto
  with assms(2) have "length a0 = n" by simp
  moreover have "list_all (\<lambda>array. shape0 array = int n) as"
    using assms(2) by (simp add: list_all_iff shape0_def)
  ultimately show ?thesis by (simp add: header_def as shape0_def)
qed

lemma gen_next_suspended:
  assumes "perm_ok L" "0 < b" "b < n" and len: "\<forall>a \<in> set as. length a = n"
  shows "gen_next L (Suspended (frame_at L as k n b t)) =
         Some (Inr (spec_batch L as k n b (Suc t)), Suspended (frame_at L as k n b (Suc t)))"
proof -
  let ?m = "batches_per_pass n b"
  let ?f = "frame_at L as k n b t"
  note B = bpp_bounds[OF assms(2,3)]
  show ?thesis
  proof (cases "Suc (t mod ?m) = ?m")
    case False
    then have j: "Suc (t mod ?m) < ?m" using B(1) by (metis Suc_lessI mod_less_divisor)
    have md: "Suc t mod ?m = Suc (t mod ?m)" "Suc t div ?m = t div ?m"
      using False by (simp_all add: mod_Suc div_Suc)
    have eq: "after_yield ?f = frame_at L as k n b (Suc t)"
      by (simp add: after_yield_def frame_at_def md)
    have "run_to_yield L (frame_at L as k n b (Suc t)) =
          Some (map (\<lambda>a. map (\<lambda>i. a ! i) (take b (drop (Suc (t mod ?m) * b) (pass_perm L k n (t div ?m))))) as,
                frame_at L as k n b (Suc t))"
      by (rule yield_at[OF assms(1-3), where i = "t div ?m" and j = "Suc (t mod ?m)"])
         (simp_all add: frame_at_def md j len)
    then show ?thesis
      by (simp add: eq suspend_def spec_batch_def spec_positions_def md)
  next
    case True
    then have md: "Suc t mod ?m = 0" "Suc t div ?m = Suc (t div ?m)"
      by (simp_all add: mod_Suc div_Suc)
    let ?g = "after_yield ?f"
    have "n \<le> (t mod ?m) * b + b + b" using B(3) True by (metis mult_Suc add.commute)
    then have "int n \<le> int ((t mod ?m) * b + b) + int b" by linarith
    then have notlt: "\<not> end_idx ?g < dataset_size ?g"
      by (simp add: after_yield_def frame_at_def)
    have eq: "begin_pass L ?g = frame_at L as k n b (Suc t)"
      by (simp add: begin_pass_def after_yield_def frame_at_def md pass_perm_def)
    have "run_to_yield L (frame_at L as k n b (Suc t)) =
          Some (map (\<lambda>a. map (\<lambda>i. a ! i) (take b (drop (0 * b) (pass_perm L k n (Suc (t div ?m)))))) as,
                frame_at L as k n b (Suc t))"
      by (rule yield_at[OF assms(1-3), where i = "Suc (t div ?m)" and j = 0])
         (simp_all add: frame_at_def md B(1) len)
    moreover have "run_to_yield L ?g = run_to_yield L (begin_pass L ?g)"
      using notlt by (subst run_to_yield.simps) simp
    ultimately show ?thesis
      by (simp add: eq suspend_def spec_batch_def spec_positions_def md)
  qed
qed

lemma gen_next_created:
  assumes "perm_ok L" "0 < b" "b < n" "as \<noteq> []" "\<forall>a \<in> set as. length a = n"
  shows "gen_next L (dataloader as (int b) k) =
         Some (Inr (spec_batch L as k n b 0), Suspended (frame_at L as k n b 0))"
proof -
  let ?m = "batches_per_pass n b"
  note B = bpp_bounds[OF assms(2,3)]
  let ?f0 = "\<lparr>arrays = as, batch_size = int b, dataset_size = int n,
                     indices = [0..<n], key = k, perm = [],
                     start = 0, end_idx = 0\<rparr>"
  from assms(4) obtain a0 rest where as: "as = a0 # rest" by (cases as) auto
  with assms(5) have "length a0 = n" by simp
  moreover have "list_all (\<lambda>array. shape0 array = int n) as"
    using assms(5) by (simp add: list_all_iff shape0_def)
  ultimately have h: "header as (int b) k = Inr ?f0"
    by (simp add: header_def as shape0_def)
  have eq: "begin_pass L ?f0 = frame_at L as k n b 0"
    using B(1) by (simp add: begin_pass_def frame_at_def pass_perm_def)
  have "run_to_yield L (frame_at L as k n b 0) =
          Some (map (\<lambda>a. map (\<lambda>i. a ! i) (take b (drop (0 * b) (pass_perm L k n 0)))) as,
                frame_at L as k n b 0)"
    by (rule yield_at[OF assms(1-3), where i = 0 and j = 0])
       (simp_all add: frame_at_def B(1) assms(5))
  then show ?thesis
    using B(1) by (simp add: dataloader_def h eq suspend_def spec_batch_def spec_positions_def)
qed

lemma take_gen_suspended:
  assumes "perm_ok L" "0 < b" "b < n" "\<forall>a \<in> set as. length a = n"
  shows "take_gen L c (Suspended (frame_at L as k n b t)) =
         Some (Inr (map (spec_batch L as k n b) [Suc t ..< Suc t + c]))"
proof (induction c arbitrary: t)
  case 0
  then show ?case by simp
next
  case (Suc c)
  have l: "[Suc t..<Suc t + Suc c] = Suc t # [Suc (Suc t)..<Suc (Suc t) + c]"
    by (simp add: upt_conv_Cons)
  show ?case
    by (simp only: take_gen.simps gen_next_suspended[OF assms] Suc.IH l
          option.case prod.case sum.case list.map)
qed

lemma take_gen_dataloader:
  assumes "perm_ok L" "0 < b" "b < n" "as \<noteq> []" "\<forall>a \<in> set as. length a = n"
  shows "take_gen L c (dataloader as (int b) k) = Some (Inr (map (spec_batch L as k n b) [0 ..< c]))"
proof (cases c)
  case 0
  then show ?thesis by simp
next
  case (Suc c')
  have "[0..<Suc c'] = 0 # [Suc 0..<Suc 0 + c']" by (simp add: upt_conv_Cons)
  then show ?thesis
    using take_gen_suspended[OF assms(1-3) assms(5), of c' k 0]
    by (simp only: Suc take_gen.simps gen_next_created[OF assms]
          option.case prod.case sum.case list.map)
qed

lemma positions_props:
  assumes "perm_ok L" "0 < b" "b < n"
  shows "length (spec_positions L k n b t) = b"
    and "distinct (spec_positions L k n b t)"
    and "set (spec_positions L k n b t) \<subseteq>
           set (take (batches_per_pass n b * b) (pass_perm L k n (t div batches_per_pass n b)))"
proof -
  let ?m = "batches_per_pass n b"
  let ?p = "pass_perm L k n (t div ?m)"
  let ?j = "t mod ?m"
  note B = bpp_bounds[OF assms(2,3)]
  have j: "?j < ?m" using B(1) by simp
  then have "Suc ?j * b \<le> ?m * b" by (intro mult_le_mono1) simp
  then have le: "?j * b + b \<le> ?m * b" by simp
  with B(2) have "?j * b + b \<le> length ?p" by (simp add: perm_ok_length[OF assms(1)])
  then show "length (spec_positions L k n b t) = b"
    by (simp add: spec_positions_def)
  show "distinct (spec_positions L k n b t)"
    by (simp add: spec_positions_def perm_ok_distinct[OF assms(1)])
  have "take b (drop (?j * b) ?p) = drop (?j * b) (take (?j * b + b) ?p)"
    by (simp add: drop_take)
  also have "set \<dots> \<subseteq> set (take (?j * b + b) ?p)" by (rule set_drop_subset)
  also have "\<dots> \<subseteq> set (take (?m * b) ?p)" using le by (rule set_take_subset_set_take)
  finally show "set (spec_positions L k n b t) \<subseteq> set (take (?m * b) ?p)"
    by (simp add: spec_positions_def)
qed

lemma tail_props:
  assumes "perm_ok L" "0 < b" "b < n"
  shows "set (take (batches_per_pass n b * b) (pass_perm L k n i)) \<inter>
         set (drop (batches_per_pass n b * b) (pass_perm L k n i)) = {}"
    and "length (drop (batches_per_pass n b * b) (pass_perm L k n i)) = n - b * ((n - 1) div b)"
    and "0 < n - b * ((n - 1) div b)"
proof -
  let ?m = "batches_per_pass n b"
  let ?p = "pass_perm L k n i"
  note B = bpp_bounds[OF assms(2,3)]
  have "distinct (take (?m * b) ?p @ drop (?m * b) ?p)"
    by (simp add: perm_ok_distinct[OF assms(1)])
  then show "set (take (?m * b) ?p) \<inter> set (drop (?m * b) ?p) = {}"
    by (simp only: distinct_append)
  show "length (drop (?m * b) ?p) = n - b * ((n - 1) div b)"
    by (simp add: perm_ok_length[OF assms(1)] batches_per_pass_def mult.commute)
  show "0 < n - b * ((n - 1) div b)"
    using B(2) by (simp add: batches_per_pass_def mult.commute)
qed

lemma dvd_tail:
  fixes b n :: nat
  assumes "0 < b" "b < n" "b dvd n"
  shows "n - b * ((n - 1) div b) = b"
proof -
  from assms(3) obtain q where q: "n = b * q" by (auto simp: dvd_def)
  have "q \<noteq> 0" using q assms(2) by auto
  then obtain q' where q': "q = Suc q'" by (cases q) auto
  from assms(1) obtain r where r: "b = Suc r" by (cases b) auto
  have "n - 1 = r + q' * b" using q q' r by simp
  moreover have "(r + q' * b) div b = q' + r div b" using assms(1) by simp
  moreover have "r div b = 0" by (simp add: r)
  ultimately have "(n - 1) div b = q'" by simp
  then show ?thesis using q q' by simp
qed

lemma pass_positions:
  assumes "j < (n - 1) div b"
  shows "spec_positions L k n b (i * ((n - 1) div b) + j) = take b (drop (j * b) (pass_perm L k n i))"
  using assms by (simp add: spec_positions_def batches_per_pass_def)

text \<open>
  C4. With a non-empty tuple of arrays of \<open>n\<close> rows each, \<open>0 < b < n\<close> and a library
  whose \<open>permutation\<close> permutes: the batches that the generator yields are, in order,
  those of pass 0, pass 1, ..., each pass contributing exactly \<open>(n - 1) div b\<close> batches,
  namely the consecutive slices of length \<open>b\<close> of that pass's permutation of \<open>0..n-1\<close>
  (drawn with a key split off once more for each pass). Each batch holds \<open>b\<close> rows of
  every array, at distinct positions; the last \<open>n - b * ((n - 1) div b)\<close> positions of
  each permutation are in no batch, there is always at least one of them, and there are
  \<open>b\<close> of them when \<open>b\<close> divides \<open>n\<close>.
\<close>

theorem dataloader_passes:
  assumes "perm_ok L" and "as \<noteq> []" and "\<forall>a \<in> set as. length a = n" and "0 < b" and "b < n"
  shows "take_gen L c (dataloader as (int b) k) =
           Some (Inr (map (spec_batch L as k n b) [0..<c])) \<and>
         (\<forall>i j. j < (n - 1) div b \<longrightarrow>
              spec_positions L k n b (i * ((n - 1) div b) + j) =
                take b (drop (j * b) (pass_perm L k n i))) \<and>
         (\<forall>t. length (spec_positions L k n b t) = b \<and>
              distinct (spec_positions L k n b t) \<and>
              set (spec_positions L k n b t) \<subseteq>
                set (take (b * ((n - 1) div b)) (pass_perm L k n (t div ((n - 1) div b)))) \<and>
              (\<forall>rows \<in> set (spec_batch L as k n b t). length rows = b)) \<and>
         (\<forall>i. mset (pass_perm L k n i) = mset [0..<n] \<and>
              set (take (b * ((n - 1) div b)) (pass_perm L k n i)) \<inter>
                set (drop (b * ((n - 1) div b)) (pass_perm L k n i)) = {} \<and>
              length (drop (b * ((n - 1) div b)) (pass_perm L k n i)) = n - b * ((n - 1) div b)) \<and>
         0 < n - b * ((n - 1) div b) \<and>
         (b dvd n \<longrightarrow> n - b * ((n - 1) div b) = b)"
proof -
  have m: "batches_per_pass n b * b = b * ((n - 1) div b)"
    by (simp add: batches_per_pass_def mult.commute)
  have bpp: "batches_per_pass n b = (n - 1) div b" by (simp add: batches_per_pass_def)
  have stream: "take_gen L c (dataloader as (int b) k) =
           Some (Inr (map (spec_batch L as k n b) [0..<c]))"
    using assms by (intro take_gen_dataloader)
  have pos: "length (spec_positions L k n b t) = b \<and>
              distinct (spec_positions L k n b t) \<and>
              set (spec_positions L k n b t) \<subseteq>
                set (take (b * ((n - 1) div b)) (pass_perm L k n (t div ((n - 1) div b)))) \<and>
              (\<forall>rows \<in> set (spec_batch L as k n b t). length rows = b)" for t
    using positions_props[OF assms(1,4,5), of k t, unfolded m, unfolded bpp]
    by (simp add: spec_batch_def)
  have tail: "mset (pass_perm L k n i) = mset [0..<n] \<and>
              set (take (b * ((n - 1) div b)) (pass_perm L k n i)) \<inter>
                set (drop (b * ((n - 1) div b)) (pass_perm L k n i)) = {} \<and>
              length (drop (b * ((n - 1) div b)) (pass_perm L k n i)) = n - b * ((n - 1) div b)" for i
    using tail_props(1,2)[OF assms(1,4,5), of k i, unfolded m] assms(1)
    by (simp add: perm_ok_def pass_perm_def)
  have pos': "0 < n - b * ((n - 1) div b)" by (rule tail_props(3)[OF assms(1,4,5)])
  have dv: "b dvd n \<longrightarrow> n - b * ((n - 1) div b) = b" using dvd_tail[OF assms(4,5)] by blast
  have pass: "\<forall>i j. j < (n - 1) div b \<longrightarrow>
              spec_positions L k n b (i * ((n - 1) div b) + j) =
                take b (drop (j * b) (pass_perm L k n i))"
    by (intro allI impI) (rule pass_positions)
  show ?thesis using stream pass pos tail pos' dv by blast
qed

theorem dataloader_passes_witness:
  "perm_ok demo_jrandom \<and> demo_arrays \<noteq> [] \<and> list_all (\<lambda>a. length a = 5) demo_arrays \<and>
   (0::nat) < 2 \<and> (2::nat) < 5 \<and>
   take_gen demo_jrandom 5 (dataloader demo_arrays 2 1) =
     Some (Inr [[[11, 12], [21, 22]], [[13, 14], [23, 24]],
                [[12, 13], [22, 23]], [[14, 10], [24, 20]],
                [[13, 14], [23, 24]]]) \<and>
   (5::nat) - 2 * ((5 - 1) div 2) = 1"
proof -
  have h: "demo_arrays \<noteq> []" "\<forall>a \<in> set demo_arrays. length a = 5" "(0::nat) < 2" "(2::nat) < 5"
    by (simp_all add: demo_arrays_def)
  have v: "map (spec_batch demo_jrandom demo_arrays 1 5 2) [0..<5] =
           [[[11, 12], [21, 22]], [[13, 14], [23, 24]],
                [[12, 13], [22, 23]], [[14, 10], [24, 20]],
                [[13, 14], [23, 24]]]"
    by code_simp
  from dataloader_passes[OF demo_perm_ok h, of 5 1]
  have "take_gen demo_jrandom 5 (dataloader demo_arrays (int 2) 1) =
          Some (Inr (map (spec_batch demo_jrandom demo_arrays 1 5 2) [0..<5]))" by blast
  then have "take_gen demo_jrandom 5 (dataloader demo_arrays 2 1) =
     Some (Inr [[[11, 12], [21, 22]], [[13, 14], [23, 24]],
                [[12, 13], [22, 23]], [[14, 10], [24, 20]],
                [[13, 14], [23, 24]]])"
    by (simp only: v of_nat_numeral)
  moreover have "list_all (\<lambda>a. length a = 5) demo_arrays" by (simp add: demo_arrays_def)
  ultimately show ?thesis using demo_perm_ok h(1) by simp
qed

subsection \<open>A batch size that is not below the number of rows\<close>

lemma never_yields:
  "run_to_yield L f = Some r \<Longrightarrow>
   end_idx f < dataset_size f \<or> batch_size f < dataset_size f"
  apply (erule run_to_yield.raw_induct
      [rotated, where P = "\<lambda>L f r. end_idx f < dataset_size f \<or> batch_size f < dataset_size f"])
  subgoal premises prems for rty L f r
    using prems(2) prems(1)[of L "begin_pass L f" r]
    by (cases "end_idx f < dataset_size f") (simp_all add: begin_pass_def)
  done

lemma run_to_yield_diverges:
  assumes "dataset_size f \<le> end_idx f" "dataset_size f \<le> batch_size f"
  shows "run_to_yield L f = None"
proof (cases "run_to_yield L f")
  case None then show ?thesis .
next
  case (Some r)
  from never_yields[OF this] assms show ?thesis by simp
qed

lemma first_next_diverges:
  assumes "as \<noteq> []" "\<forall>a \<in> set as. length a = n" "int n \<le> b"
  shows "gen_next L (dataloader as b k) = None"
proof -
  let ?f0 = "\<lparr>arrays = as, batch_size = b, dataset_size = int n,
                     indices = [0..<n], key = k, perm = [], start = 0, end_idx = 0\<rparr>"
  have "run_to_yield L (begin_pass L ?f0) = None"
    by (rule run_to_yield_diverges) (simp_all add: begin_pass_def assms(3))
  then show ?thesis
    by (simp add: dataloader_def header_ok[OF assms(1,2)] suspend_def)
qed

text \<open>
  C5, as stated, fails: with \<open>steps = 0\<close> the loop of \<open>main\<close> ends although the batch
  size equals the number of rows, because \<open>zip\<close> finds \<open>range(0)\<close> exhausted before it
  asks the dataloader for anything.
\<close>

theorem zip_loop_counterexample:
  "demo_arrays \<noteq> [] \<and> list_all (\<lambda>a. length a = 5) demo_arrays \<and> (5::int) \<ge> int 5 \<and>
   main_loop demo_jrandom (make_step demo_array_lib demo_filter_spec (optax_sgd uminus))
      0 (dataloader demo_arrays 5 1) demo_mlp () = Some (Inr (demo_mlp, ()))"
  by (simp add: main_loop_def demo_arrays_def)

text \<open>
  C5, amended. With a non-empty tuple of arrays of \<open>n\<close> rows each and \<open>b \<ge> n\<close>, the
  first \<open>next\<close> on the dataloader never returns: no batch is ever yielded. The loop of
  \<open>main\<close> therefore does not terminate when \<open>steps > 0\<close>, and it returns at once,
  with the model untouched, when \<open>steps \<le> 0\<close>.
\<close>

theorem dataloader_never_yields:
  assumes "as \<noteq> []" and "\<forall>a \<in> set as. length a = n" and "int n \<le> b"
  shows "gen_next L (dataloader as b k) = None \<and>
         (0 < steps \<longrightarrow> main_loop L make_step' steps (dataloader as b k) model opt_state = None) \<and>
         (steps \<le> 0 \<longrightarrow>
            main_loop L make_step' steps (dataloader as b k) model opt_state =
              Some (Inr (model, opt_state)))"
proof -
  have d: "gen_next L (dataloader as b k) = None"
    using assms by (rule first_next_diverges)
  have "main_loop L make_step' steps (dataloader as b k) model opt_state = None" if "0 < steps"
  proof -
    from that obtain r where "nat steps = Suc r" by (cases "nat steps") auto
    then show ?thesis by (simp add: main_loop_def d)
  qed
  moreover have "main_loop L make_step' steps (dataloader as b k) model opt_state =
              Some (Inr (model, opt_state))" if "steps \<le> 0"
    using that by (simp add: main_loop_def)
  ultimately show ?thesis using d by blast
qed

theorem dataloader_never_yields_witness:
  "demo_arrays \<noteq> [] \<and> list_all (\<lambda>a. length a = 5) demo_arrays \<and> int 5 \<le> 5 \<and>
   gen_next demo_jrandom (dataloader demo_arrays 5 1) = None \<and>
   (0 < (1000::int) \<and>
    main_loop demo_jrandom (make_step demo_array_lib demo_filter_spec (optax_sgd uminus))
      1000 (dataloader demo_arrays 5 1) demo_mlp () = None)"
proof -
  have h: "demo_arrays \<noteq> []" "\<forall>a \<in> set demo_arrays. length a = 5" "int 5 \<le> 5"
    by (simp_all add: demo_arrays_def)
  from dataloader_never_yields[OF h, of demo_jrandom 1 1000
      "make_step demo_array_lib demo_filter_spec (optax_sgd uminus)" demo_mlp "()"]
  have "gen_next demo_jrandom (dataloader demo_arrays 5 1) = None"
    and "main_loop demo_jrandom (make_step demo_array_lib demo_filter_spec (optax_sgd uminus))
      1000 (dataloader demo_arrays 5 1) demo_mlp () = None"
    by simp_all
  moreover have "list_all (\<lambda>a. length a = 5) demo_arrays" by (simp add: demo_arrays_def)
  ultimately show ?thesis using h(1) by simp
qed

subsection \<open>The exceptions that the notebooks raise themselves\<close>

lemma all_first_dims_True:
  "all_first_dims n ss = Inr True \<longleftrightarrow> (\<forall>s \<in> set ss. first_dim_is n s)"
  by (induction ss) (auto simp: shape_at0_def first_dim_is_def split: list.splits)

lemma all_first_dims_False:
  "all_first_dims n ss = Inr False \<longleftrightarrow>
     (\<exists>i < length ss. ss ! i \<noteq> [] \<and> hd (ss ! i) \<noteq> n \<and> (\<forall>j < i. first_dim_is n (ss ! j)))"
proof (induction ss)
  case Nil
  then show ?case by simp
next
  case (Cons s ss)
  show ?case
  proof (cases s)
    case Nil
    have "\<not> (\<exists>i < length (s # ss). (s # ss) ! i \<noteq> [] \<and> hd ((s # ss) ! i) \<noteq> n \<and>
              (\<forall>j < i. first_dim_is n ((s # ss) ! j)))"
    proof
      assume "\<exists>i < length (s # ss). (s # ss) ! i \<noteq> [] \<and> hd ((s # ss) ! i) \<noteq> n \<and>
              (\<forall>j < i. first_dim_is n ((s # ss) ! j))"
      then obtain i where i: "(s # ss) ! i \<noteq> []" "\<forall>j < i. first_dim_is n ((s # ss) ! j)" by blast
      show False
      proof (cases i)
        case 0 with i(1) Nil show ?thesis by simp
      next
        case (Suc i')
        with i(2) have "first_dim_is n ((s # ss) ! 0)" by blast
        with Nil show ?thesis by (simp add: first_dim_is_def)
      qed
    qed
    then show ?thesis using Nil by (simp add: shape_at0_def)
  next
    case (Cons d ds)
    show ?thesis
    proof (cases "d = n")
      case False
      have "(s # ss) ! 0 \<noteq> [] \<and> hd ((s # ss) ! 0) \<noteq> n \<and> (\<forall>j < 0. first_dim_is n ((s # ss) ! j))"
        using Cons False by simp
      then have "\<exists>i < length (s # ss). (s # ss) ! i \<noteq> [] \<and> hd ((s # ss) ! i) \<noteq> n \<and>
              (\<forall>j < i. first_dim_is n ((s # ss) ! j))"
        by (intro exI[of _ 0]) simp
      then show ?thesis using Cons False by (simp add: shape_at0_def)
    next
      case True
      have s: "first_dim_is n s" "hd s = n" "s \<noteq> []" using Cons True by (simp_all add: first_dim_is_def)
      have "(\<exists>i < length (s # ss). (s # ss) ! i \<noteq> [] \<and> hd ((s # ss) ! i) \<noteq> n \<and>
              (\<forall>j < i. first_dim_is n ((s # ss) ! j))) \<longleftrightarrow>
            (\<exists>i < length ss. ss ! i \<noteq> [] \<and> hd (ss ! i) \<noteq> n \<and> (\<forall>j < i. first_dim_is n (ss ! j)))"
        (is "?L \<longleftrightarrow> ?R")
      proof
        assume ?L
        then obtain i where i: "i < length (s # ss)" "(s # ss) ! i \<noteq> []" "hd ((s # ss) ! i) \<noteq> n"
          "\<forall>j < i. first_dim_is n ((s # ss) ! j)" by blast
        from i(3) s(2) obtain i' where i': "i = Suc i'" by (cases i) auto
        have "\<forall>j < i'. first_dim_is n (ss ! j)"
        proof (intro allI impI)
          fix j assume "j < i'"
          then have "Suc j < i" using i' by simp
          with i(4) have "first_dim_is n ((s # ss) ! Suc j)" by blast
          then show "first_dim_is n (ss ! j)" by simp
        qed
        with i i' show ?R by (intro exI[of _ i']) simp
      next
        assume ?R
        then obtain i where i: "i < length ss" "ss ! i \<noteq> []" "hd (ss ! i) \<noteq> n"
          "\<forall>j < i. first_dim_is n (ss ! j)" by blast
        have "\<forall>j < Suc i. first_dim_is n ((s # ss) ! j)"
        proof (intro allI impI)
          fix j assume "j < Suc i"
          then show "first_dim_is n ((s # ss) ! j)" using s(1) i(4) by (cases j) auto
        qed
        with i show ?L by (intro exI[of _ "Suc i"]) simp
      qed
      then show ?thesis using Cons True Cons.IH by (simp add: shape_at0_def)
    qed
  qed
qed

lemma all_first_dims_raises:
  "all_first_dims n ss = Inl e \<longleftrightarrow>
     e = IndexError \<and> (\<exists>i < length ss. ss ! i = [] \<and> (\<forall>j < i. first_dim_is n (ss ! j)))"
proof (induction ss)
  case Nil
  then show ?case by simp
next
  case (Cons s ss)
  show ?case
  proof (cases s)
    case Nil
    have "\<exists>i < length (s # ss). (s # ss) ! i = [] \<and> (\<forall>j < i. first_dim_is n ((s # ss) ! j))"
      using Nil by (intro exI[of _ 0]) simp
    then show ?thesis using Nil by (auto simp: shape_at0_def)
  next
    case (Cons d ds)
    show ?thesis
    proof (cases "d = n")
      case False
      have "\<not> (\<exists>i < length (s # ss). (s # ss) ! i = [] \<and> (\<forall>j < i. first_dim_is n ((s # ss) ! j)))"
      proof
        assume "\<exists>i < length (s # ss). (s # ss) ! i = [] \<and> (\<forall>j < i. first_dim_is n ((s # ss) ! j))"
        then obtain i where i: "(s # ss) ! i = []" "\<forall>j < i. first_dim_is n ((s # ss) ! j)" by blast
        show False
        proof (cases i)
          case 0 with i(1) Cons show ?thesis by simp
        next
          case (Suc i')
          with i(2) have "first_dim_is n ((s # ss) ! 0)" by blast
          with Cons False show ?thesis by (simp add: first_dim_is_def)
        qed
      qed
      then show ?thesis using Cons False by (simp add: shape_at0_def)
    next
      case True
      have s: "first_dim_is n s" "s \<noteq> []" using Cons True by (simp_all add: first_dim_is_def)
      have "(\<exists>i < length (s # ss). (s # ss) ! i = [] \<and> (\<forall>j < i. first_dim_is n ((s # ss) ! j))) \<longleftrightarrow>
            (\<exists>i < length ss. ss ! i = [] \<and> (\<forall>j < i. first_dim_is n (ss ! j)))"
        (is "?L \<longleftrightarrow> ?R")
      proof
        assume ?L
        then obtain i where i: "i < length (s # ss)" "(s # ss) ! i = []"
          "\<forall>j < i. first_dim_is n ((s # ss) ! j)" by blast
        from i(2) s(2) obtain i' where i': "i = Suc i'" by (cases i) auto
        have "\<forall>j < i'. first_dim_is n (ss ! j)"
        proof (intro allI impI)
          fix j assume "j < i'"
          then have "Suc j < i" using i' by simp
          with i(3) have "first_dim_is n ((s # ss) ! Suc j)" by blast
          then show "first_dim_is n (ss ! j)" by simp
        qed
        with i i' show ?R by (intro exI[of _ i']) simp
      next
        assume ?R
        then obtain i where i: "i < length ss" "ss ! i = []" "\<forall>j < i. first_dim_is n (ss ! j)"
          by blast
        have "\<forall>j < Suc i. first_dim_is n ((s # ss) ! j)"
        proof (intro allI impI)
          fix j assume "j < Suc i"
          then show "first_dim_is n ((s # ss) ! j)" using s(1) i(3) by (cases j) auto
        qed
        with i show ?L by (intro exI[of _ "Suc i"]) simp
      qed
      then show ?thesis using Cons True Cons.IH by (simp add: shape_at0_def)
    qed
  qed
qed

lemma header_checks_Cons:
  assumes "shapes = (d # ds) # rest"
  shows "header_checks shapes =
           (case all_first_dims d shapes of
              Inl e \<Rightarrow> Inl e
            | Inr ok \<Rightarrow> if ok then Inr d else Inl AssertionError)"
    and "hd (hd shapes) = d" and "shapes \<noteq> []"
  using assms by (simp_all add: header_checks_def shape_at0_def del: all_first_dims.simps)

lemma header_checks_Nil:
  assumes "shapes = [] # rest"
  shows "header_checks shapes = Inl IndexError"
  using assms by (simp add: header_checks_def shape_at0_def)

lemma header_checks_IndexError:
  "header_checks shapes = Inl IndexError \<longleftrightarrow>
     shapes = [] \<or>
     (\<exists>i < length shapes. shapes ! i = [] \<and> (\<forall>j < i. first_dim_is (hd (hd shapes)) (shapes ! j)))"
proof (cases shapes)
  case Nil
  then show ?thesis by (simp add: header_checks_def)
next
  case (Cons s0 rest)
  show ?thesis
  proof (cases s0)
    case Nil
    have "\<exists>i < length shapes. shapes ! i = [] \<and> (\<forall>j < i. first_dim_is (hd (hd shapes)) (shapes ! j))"
      using Cons Nil by (intro exI[of _ 0]) simp
    then show ?thesis using Cons Nil by (simp add: header_checks_def shape_at0_def)
  next
    case s0: (Cons d ds)
    note H = header_checks_Cons[of shapes d ds rest]
    have sh: "shapes = (d # ds) # rest" using Cons s0 by simp
    have "header_checks shapes = Inl IndexError \<longleftrightarrow> all_first_dims d shapes = Inl IndexError"
      by (auto simp: H(1)[OF sh] split: sum.splits)
    then show ?thesis
      by (simp only: all_first_dims_raises H(2)[OF sh] H(3)[OF sh] simp_thms)
  qed
qed

lemma header_checks_AssertionError:
  "header_checks shapes = Inl AssertionError \<longleftrightarrow>
     (\<exists>i < length shapes. shapes ! i \<noteq> [] \<and> hd (shapes ! i) \<noteq> hd (hd shapes) \<and>
        (\<forall>j < i. first_dim_is (hd (hd shapes)) (shapes ! j)))"
proof (cases shapes)
  case Nil
  then show ?thesis by (simp add: header_checks_def)
next
  case (Cons s0 rest)
  show ?thesis
  proof (cases s0)
    case Nil
    have "\<not> (\<exists>i < length shapes. shapes ! i \<noteq> [] \<and> hd (shapes ! i) \<noteq> hd (hd shapes) \<and>
        (\<forall>j < i. first_dim_is (hd (hd shapes)) (shapes ! j)))"
    proof
      assume "\<exists>i < length shapes. shapes ! i \<noteq> [] \<and> hd (shapes ! i) \<noteq> hd (hd shapes) \<and>
        (\<forall>j < i. first_dim_is (hd (hd shapes)) (shapes ! j))"
      then obtain i where i: "shapes ! i \<noteq> []" "\<forall>j < i. first_dim_is (hd (hd shapes)) (shapes ! j)"
        by blast
      show False
      proof (cases i)
        case 0 with i(1) Cons Nil show ?thesis by simp
      next
        case (Suc i')
        with i(2) have "first_dim_is (hd (hd shapes)) (shapes ! 0)" by blast
        with Cons Nil show ?thesis by (simp add: first_dim_is_def)
      qed
    qed
    then show ?thesis using Cons Nil by (simp add: header_checks_def shape_at0_def)
  next
    case s0: (Cons d ds)
    note H = header_checks_Cons[of shapes d ds rest]
    have sh: "shapes = (d # ds) # rest" using Cons s0 by simp
    have "header_checks shapes = Inl AssertionError \<longleftrightarrow> all_first_dims d shapes = Inr False"
      using all_first_dims_raises[of d shapes AssertionError]
      by (auto simp: H(1)[OF sh] split: sum.splits)
    then show ?thesis
      by (simp only: all_first_dims_False H(2)[OF sh])
  qed
qed

lemma header_checks_errors:
  assumes "header_checks shapes = Inl e"
  shows "e = IndexError \<or> e = AssertionError"
proof (cases shapes)
  case Nil
  with assms show ?thesis by (simp add: header_checks_def)
next
  case (Cons s0 rest)
  show ?thesis
  proof (cases s0)
    case Nil
    with Cons assms show ?thesis by (simp add: header_checks_def shape_at0_def)
  next
    case s0: (Cons d ds)
    have sh: "shapes = (d # ds) # rest" using Cons s0 by simp
    show ?thesis
      using assms all_first_dims_raises[of d shapes e]
      by (auto simp: header_checks_Cons(1)[OF sh] split: sum.splits if_splits)
  qed
qed

lemma header_checks_returns:
  "header_checks shapes = Inr n \<longleftrightarrow> shapes \<noteq> [] \<and> (\<forall>s \<in> set shapes. first_dim_is n s)"
proof (cases shapes)
  case Nil
  then show ?thesis by (simp add: header_checks_def)
next
  case (Cons s0 rest)
  show ?thesis
  proof (cases s0)
    case Nil
    then show ?thesis using Cons by (auto simp: header_checks_def shape_at0_def first_dim_is_def)
  next
    case s0: (Cons d ds)
    have sh: "shapes = (d # ds) # rest" using Cons s0 by simp
    have 1: "header_checks shapes = Inr n \<longleftrightarrow> d = n \<and> all_first_dims d shapes = Inr True"
      by (auto simp: header_checks_Cons(1)[OF sh] split: sum.splits)
    have 2: "(\<forall>s \<in> set shapes. first_dim_is n s) \<Longrightarrow> d = n"
      using sh by (simp add: first_dim_is_def)
    show ?thesis
      using 1 2 header_checks_Cons(3)[OF sh] all_first_dims_True[of n shapes] by blast
  qed
qed

lemma all_first_dims_rows:
  "all_first_dims n (map (\<lambda>a. length a # rest a) as) = Inr (list_all (\<lambda>a. length a = n) as)"
  by (induction as) (simp_all add: shape_at0_def)

lemma header_by_checks:
  "header as b k =
     (case header_checks (map (\<lambda>a. length a # rest a) as) of
        Inl e \<Rightarrow> Inl e
      | Inr n \<Rightarrow> Inr \<lparr>arrays = as, batch_size = b, dataset_size = int n, indices = [0..<n],
                       key = k, perm = [], start = 0, end_idx = 0\<rparr>)"
proof (cases as)
  case Nil
  then show ?thesis by (simp add: header_def header_checks_def)
next
  case (Cons a0 as')
  have "list_all (\<lambda>array. shape0 array = shape0 a0) as = list_all (\<lambda>a. length a = length a0) as"
    by (simp add: shape0_def)
  then show ?thesis
    using all_first_dims_rows[of "length a0" rest as] Cons
    by (simp add: header_def header_checks_def shape_at0_def Let_def shape0_def)
qed

lemma suspend_no_error: "suspend r \<noteq> Some (Inl e, g)"
  by (auto simp: suspend_def split: option.splits)

lemma first_next_error:
  "gen_next L (dataloader as b k) = Some (Inl e, g) \<longleftrightarrow> header as b k = Inl e \<and> g = Finished"
  by (cases "header as b k") (auto simp: dataloader_def suspend_no_error)

lemma first_next_by_checks:
  "gen_next L (dataloader as b k) = Some (Inl e, g) \<longleftrightarrow>
     header_checks (map (\<lambda>a. length a # rest a) as) = Inl e \<and> g = Finished"
  by (simp add: first_next_error header_by_checks[of as b k rest] split: sum.splits)

lemma get_data_header:
  "\<exists>f. header (get_data D n k) b k' = Inr f"
  by (simp add: get_data_def header_def Let_def shape0_def)

lemma init_apply_main_eq:
  "init_apply_main I in_size seed =
     (case PRNGKey I seed of
        Inl e \<Rightarrow> Inl (Library e)
      | Inr key' \<Rightarrow>
          (case MLP I in_size 1 8 1 key' of
             Inl e \<Rightarrow> Inl (Library e)
           | Inr mlp' \<Rightarrow>
               (case arange I in_size of
                  Inl e \<Rightarrow> Inl (Library e)
                | Inr x \<Rightarrow>
                    (case call_model I (jtu_tree_map Some mlp') x of
                       Inl e \<Rightarrow> Inl (Library e)
                     | Inr y1 \<Rightarrow>
                         (case call_model I
                                 (jtu_tree_map (\<lambda>v. Some (if is_inexact I v then plus_one I v else v)) mlp') x of
                            Inl e \<Rightarrow> Inl (Library e)
                          | Inr y2 \<Rightarrow>
                              (case not_equal_truth I y1 y2 of
                                 Inl e \<Rightarrow> Inl (Library e)
                               | Inr truth \<Rightarrow>
                                   if truth then Inr () else Inl (Own AssertionError)))))))"
proof -
  have c1: "eqx_combine (fst (eqx_partition_by (is_inexact I) m)) (snd (eqx_partition_by (is_inexact I) m)) =
            Inr (jtu_tree_map Some m)" for m
    by (simp add: eqx_combine_def jtu_tree_map2_def eqx_partition_by_def jtu_tree_map_def
        map2_map_map cong: map_cong)
  have c2: "eqx_combine (jtu_tree_map (map_option (plus_one I)) (fst (eqx_partition_by (is_inexact I) m)))
              (snd (eqx_partition_by (is_inexact I) m)) =
            Inr (jtu_tree_map (\<lambda>v. Some (if is_inexact I v then plus_one I v else v)) m)" for m
    by (simp add: eqx_combine_def jtu_tree_map2_def eqx_partition_by_def jtu_tree_map_def
        map2_map_map o_def cong: map_cong)
  show ?thesis
    by (simp add: init_apply_main_def make_mlp_def Let_def split_beta c1 c2 split: sum.splits)
qed

lemma init_apply_main_assert:
  "init_apply_main I in_size seed = Inl (Own AssertionError) \<longleftrightarrow>
     (\<exists>key' mlp' x y1 y2.
        PRNGKey I seed = Inr key' \<and> MLP I in_size 1 8 1 key' = Inr mlp' \<and>
        arange I in_size = Inr x \<and>
        call_model I (jtu_tree_map Some mlp') x = Inr y1 \<and>
        call_model I (jtu_tree_map (\<lambda>v. Some (if is_inexact I v then plus_one I v else v)) mlp') x = Inr y2 \<and>
        not_equal_truth I y1 y2 = Inr False)"
  by (auto simp: init_apply_main_eq split: sum.splits)

lemma init_apply_main_returns:
  "init_apply_main I in_size seed = Inr () \<longleftrightarrow>
     (\<exists>key' mlp' x y1 y2.
        PRNGKey I seed = Inr key' \<and> MLP I in_size 1 8 1 key' = Inr mlp' \<and>
        arange I in_size = Inr x \<and>
        call_model I (jtu_tree_map Some mlp') x = Inr y1 \<and>
        call_model I (jtu_tree_map (\<lambda>v. Some (if is_inexact I v then plus_one I v else v)) mlp') x = Inr y2 \<and>
        not_equal_truth I y1 y2 = Inr True)"
  by (auto simp: init_apply_main_eq split: sum.splits)

lemma init_apply_main_raised:
  "init_apply_main I in_size seed = Inl r \<Longrightarrow> r = Own AssertionError \<or> (\<exists>e. r = Library e)"
  by (auto simp: init_apply_main_eq split: sum.splits if_splits)

text \<open>
  C3, as stated, fails: given arrays with two rows and with one row, the first \<open>next\<close>
  on the dataloader raises \<open>AssertionError\<close>, from the \<open>assert\<close> of the notebook itself.
\<close>

theorem dataloader_assert_counterexample:
  "gen_next demo_jrandom (dataloader [[1, 2], [3::nat]] 1 1) = Some (Inl AssertionError, Finished)"
  by (simp add: dataloader_def header_def shape0_def)

text \<open>
  C3, amended. The notebooks' own code does raise, in \<open>dataloader\<close> and in \<open>main\<close>
  of init\_apply.ipynb.

  The two statements of \<open>dataloader\<close> before its loop, run by the first \<open>next\<close>, on
  arrays of any number of dimensions: \<open>IndexError\<close> is raised exactly when the tuple is
  empty or, going through the arrays in order, an array without a dimension is met
  before any array whose first dimension differs from that of \<open>arrays[0]\<close>;
  \<open>AssertionError\<close> is raised exactly when an array whose first dimension differs is
  met first; nothing else is raised, and the statements succeed exactly when the tuple is
  not empty and all arrays have the same first dimension. For arrays that have a first
  dimension, and with library calls that return, the first \<open>next\<close> raises what these
  two statements raise and nothing else, and a resumed dataloader raises nothing. The
  arrays that \<open>get_data\<close> returns always pass the two statements.

  \<open>main\<close> of init\_apply.ipynb raises \<open>AssertionError\<close> exactly when every library
  call before the \<open>assert\<close> returns and the truth value of \<open>y1 != y2\<close> is false, and
  returns exactly when they all return and that truth value is true; every other
  exception that leaves \<open>main\<close> was raised by a library call.
\<close>

theorem own_raises:
  "(header_checks shapes = Inl IndexError) =
     (shapes = [] \<or>
      (\<exists>i < length shapes. shapes ! i = [] \<and>
         (\<forall>j < i. first_dim_is (hd (hd shapes)) (shapes ! j)))) \<and>
   (header_checks shapes = Inl AssertionError) =
     (\<exists>i < length shapes. shapes ! i \<noteq> [] \<and> hd (shapes ! i) \<noteq> hd (hd shapes) \<and>
         (\<forall>j < i. first_dim_is (hd (hd shapes)) (shapes ! j))) \<and>
   (\<forall>e. header_checks shapes = Inl e \<longrightarrow> e = IndexError \<or> e = AssertionError) \<and>
   (header_checks shapes = Inr n) = (shapes \<noteq> [] \<and> (\<forall>s \<in> set shapes. first_dim_is n s)) \<and>
   (\<forall>e g. (gen_next L (dataloader as b k) = Some (Inl e, g)) =
           (header_checks (map (\<lambda>a. length a # rest a) as) = Inl e \<and> g = Finished)) \<and>
   (\<forall>e g. gen_next L (Suspended f) \<noteq> Some (Inl e, g)) \<and>
   (\<exists>f0. header (get_data D dataset_size' k') b k = Inr f0) \<and>
   (init_apply_main I in_size seed = Inl (Own AssertionError)) =
     (\<exists>key' mlp' x y1 y2.
        PRNGKey I seed = Inr key' \<and> MLP I in_size 1 8 1 key' = Inr mlp' \<and>
        arange I in_size = Inr x \<and>
        call_model I (jtu_tree_map Some mlp') x = Inr y1 \<and>
        call_model I (jtu_tree_map (\<lambda>v. Some (if is_inexact I v then plus_one I v else v)) mlp') x = Inr y2 \<and>
        not_equal_truth I y1 y2 = Inr False) \<and>
   (init_apply_main I in_size seed = Inr ()) =
     (\<exists>key' mlp' x y1 y2.
        PRNGKey I seed = Inr key' \<and> MLP I in_size 1 8 1 key' = Inr mlp' \<and>
        arange I in_size = Inr x \<and>
        call_model I (jtu_tree_map Some mlp') x = Inr y1 \<and>
        call_model I (jtu_tree_map (\<lambda>v. Some (if is_inexact I v then plus_one I v else v)) mlp') x = Inr y2 \<and>
        not_equal_truth I y1 y2 = Inr True) \<and>
   (\<forall>r. init_apply_main I in_size seed = Inl r \<longrightarrow> r = Own AssertionError \<or> (\<exists>e. r = Library e))"
proof (intro conjI)
  show "(init_apply_main I in_size seed = Inr ()) =
     (\<exists>key' mlp' x y1 y2.
        PRNGKey I seed = Inr key' \<and> MLP I in_size 1 8 1 key' = Inr mlp' \<and>
        arange I in_size = Inr x \<and>
        call_model I (jtu_tree_map Some mlp') x = Inr y1 \<and>
        call_model I (jtu_tree_map (\<lambda>v. Some (if is_inexact I v then plus_one I v else v)) mlp') x = Inr y2 \<and>
        not_equal_truth I y1 y2 = Inr True)"
    by (rule init_apply_main_returns)
  show "(header_checks shapes = Inl IndexError) =
     (shapes = [] \<or>
      (\<exists>i < length shapes. shapes ! i = [] \<and>
         (\<forall>j < i. first_dim_is (hd (hd shapes)) (shapes ! j))))"
    by (rule header_checks_IndexError)
  show "(header_checks shapes = Inl AssertionError) =
     (\<exists>i < length shapes. shapes ! i \<noteq> [] \<and> hd (shapes ! i) \<noteq> hd (hd shapes) \<and>
         (\<forall>j < i. first_dim_is (hd (hd shapes)) (shapes ! j)))"
    by (rule header_checks_AssertionError)
  show "\<forall>e. header_checks shapes = Inl e \<longrightarrow> e = IndexError \<or> e = AssertionError"
    using header_checks_errors by blast
  show "(header_checks shapes = Inr n) = (shapes \<noteq> [] \<and> (\<forall>s \<in> set shapes. first_dim_is n s))"
    by (rule header_checks_returns)
  show "\<forall>e g. (gen_next L (dataloader as b k) = Some (Inl e, g)) =
           (header_checks (map (\<lambda>a. length a # rest a) as) = Inl e \<and> g = Finished)"
    by (intro allI) (rule first_next_by_checks)
  show "\<forall>e g. gen_next L (Suspended f) \<noteq> Some (Inl e, g)"
    by (simp add: suspend_no_error)
  show "\<exists>f0. header (get_data D dataset_size' k') b k = Inr f0"
    by (rule get_data_header)
  show "(init_apply_main I in_size seed = Inl (Own AssertionError)) =
     (\<exists>key' mlp' x y1 y2.
        PRNGKey I seed = Inr key' \<and> MLP I in_size 1 8 1 key' = Inr mlp' \<and>
        arange I in_size = Inr x \<and>
        call_model I (jtu_tree_map Some mlp') x = Inr y1 \<and>
        call_model I (jtu_tree_map (\<lambda>v. Some (if is_inexact I v then plus_one I v else v)) mlp') x = Inr y2 \<and>
        not_equal_truth I y1 y2 = Inr False)"
    by (rule init_apply_main_assert)
  show "\<forall>r. init_apply_main I in_size seed = Inl r \<longrightarrow> r = Own AssertionError \<or> (\<exists>e. r = Library e)"
    using init_apply_main_raised by blast
qed

theorem own_raises_witness:
  "header_checks [[3, 1], [], [2, 1]] = Inl IndexError \<and>
   header_checks [[3, 1], [2, 1], []] = Inl AssertionError \<and>
   header_checks [[], [3, 1]] = Inl IndexError \<and>
   header_checks [[3, 1], [3, 1]] = Inr 3 \<and>
   gen_next demo_jrandom (dataloader [[1, 2, 3], [4, 5, 6], [7, 8::nat]] 2 0) =
     Some (Inl AssertionError, Finished) \<and>
   init_apply_main demo_init_apply_lib 0 5678 = Inl (Own AssertionError) \<and>
   init_apply_main demo_init_apply_lib 2 5678 = Inr () \<and>
   init_apply_main demo_init_apply_lib (- 1) 5678 = Inl (Library ''ValueError'')"
proof -
  note w = own_raises[where L = demo_jrandom and b = 2 and k = 0
      and f = "frame_at demo_jrandom demo_arrays 1 5 2 0" and D = demo_data_lib
      and dataset_size' = 5 and k' = 1 and I = demo_init_apply_lib and seed = 5678
      and rest = "\<lambda>a. []"]
  have 1: "header_checks [[3, 1], [], [2, 1]] = Inl IndexError"
  proof -
    have "\<exists>i < length [[3, 1], [], [2, 1::nat]]. [[3, 1], [], [2, 1::nat]] ! i = [] \<and>
            (\<forall>j < i. first_dim_is (hd (hd [[3, 1], [], [2, 1::nat]])) ([[3, 1], [], [2, 1::nat]] ! j))"
      by (intro exI[of _ 1]) (simp add: first_dim_is_def)
    then show ?thesis
      using w[where shapes = "[[3, 1], [], [2, 1]]" and n = 3 and as = "[]" and in_size = 0,
              THEN conjunct1] by blast
  qed
  have 2: "header_checks [[3, 1], [2, 1], []] = Inl AssertionError"
  proof -
    have "\<exists>i < length [[3, 1], [2, 1], [] :: nat list].
            [[3, 1], [2, 1], [] :: nat list] ! i \<noteq> [] \<and>
            hd ([[3, 1], [2, 1], [] :: nat list] ! i) \<noteq> hd (hd [[3, 1], [2, 1], [] :: nat list]) \<and>
            (\<forall>j < i. first_dim_is (hd (hd [[3, 1], [2, 1], [] :: nat list]))
                        ([[3, 1], [2, 1], [] :: nat list] ! j))"
      by (intro exI[of _ 1]) (simp add: first_dim_is_def)
    then show ?thesis
      using w[where shapes = "[[3, 1], [2, 1], []]" and n = 3 and as = "[]" and in_size = 0,
              THEN conjunct2, THEN conjunct1] by blast
  qed
  have 3: "header_checks [[], [3, 1]] = Inl IndexError"
  proof -
    have "\<exists>i < length [[], [3, 1::nat]]. [[], [3, 1::nat]] ! i = [] \<and>
            (\<forall>j < i. first_dim_is (hd (hd [[], [3, 1::nat]])) ([[], [3, 1::nat]] ! j))"
      by (intro exI[of _ 0]) simp
    then show ?thesis
      using w[where shapes = "[[], [3, 1]]" and n = 3 and as = "[]" and in_size = 0,
              THEN conjunct1] by blast
  qed
  have 4: "header_checks [[3, 1], [3, 1]] = Inr 3"
    using w[where shapes = "[[3, 1], [3, 1]]" and n = 3 and as = "[]" and in_size = 0,
            THEN conjunct2, THEN conjunct2, THEN conjunct2, THEN conjunct1]
    by (simp add: first_dim_is_def)
  have "header_checks (map (\<lambda>a. length a # []) [[1, 2, 3], [4, 5, 6], [7, 8::nat]]) = Inl AssertionError"
    by (simp add: header_checks_def shape_at0_def)
  then have 5: "gen_next demo_jrandom (dataloader [[1, 2, 3], [4, 5, 6], [7, 8::nat]] 2 0) =
     Some (Inl AssertionError, Finished)"
    using w[where shapes = "[]" and n = 3 and as = "[[1, 2, 3], [4, 5, 6], [7, 8::nat]]" and in_size = 0,
            THEN conjunct2, THEN conjunct2, THEN conjunct2, THEN conjunct2, THEN conjunct1]
    by blast
  have 6: "init_apply_main demo_init_apply_lib 0 5678 = Inl (Own AssertionError)"
    using w[where shapes = "[]" and n = 3 and as = "[]" and in_size = 0,
            THEN conjunct2, THEN conjunct2, THEN conjunct2, THEN conjunct2, THEN conjunct2,
            THEN conjunct2, THEN conjunct2, THEN conjunct1]
    by (simp add: demo_init_apply_lib_def demo_mlp_def jtu_tree_map_def)
  have 7: "init_apply_main demo_init_apply_lib 2 5678 = Inr ()"
    using w[where shapes = "[]" and n = 3 and as = "[]" and in_size = 2,
            THEN conjunct2, THEN conjunct2, THEN conjunct2, THEN conjunct2, THEN conjunct2,
            THEN conjunct2, THEN conjunct2, THEN conjunct2, THEN conjunct1]
    by (simp add: demo_init_apply_lib_def demo_mlp_def jtu_tree_map_def)
  have 8: "init_apply_main demo_init_apply_lib (- 1) 5678 = Inl (Library ''ValueError'')"
    by (simp add: init_apply_main_def make_mlp_def demo_init_apply_lib_def)
  show ?thesis using 1 2 3 4 5 6 7 8 by (intro conjI) assumption+
qed

subsection \<open>Module-level state and the generator\<close>










subsection \<open>What \<open>make_step\<close> of frozen\_layer.ipynb changes\<close>

lemma filter_spec_shape:
  assumes "filter_spec_of model0 = Inr fs"
  shows "layers model0 \<noteq> []"
    and "length (layers fs) = length (layers model0)"
    and "activation fs = False" and "final_activation fs = False"
    and "\<And>i. i < length (layers model0) - 1 \<Longrightarrow> layers fs ! i = \<lparr>weight = False, bias = False\<rparr>"
    and "last (layers fs) = \<lparr>weight = True, bias = True\<rparr>"
proof -
  from assms show ne: "layers model0 \<noteq> []"
    by (auto simp: filter_spec_of_def eqx_tree_at_last_layer_def jtu_tree_map_def split: if_splits)
  then have fs: "fs = \<lparr>layers = butlast (map (\<lambda>l. \<lparr>weight = False, bias = False\<rparr>) (layers model0)) @
                          [\<lparr>weight = True, bias = True\<rparr>],
                   activation = False, final_activation = False\<rparr>"
    using assms
    by (auto simp: filter_spec_of_def eqx_tree_at_last_layer_def jtu_tree_map_def split: if_splits)
  show "length (layers fs) = length (layers model0)" using ne by (simp add: fs)
  show "activation fs = False" "final_activation fs = False" by (simp_all add: fs)
  show "last (layers fs) = \<lparr>weight = True, bias = True\<rparr>" by (simp add: fs)
  fix i assume "i < length (layers model0) - 1"
  then show "layers fs ! i = \<lparr>weight = False, bias = False\<rparr>"
    by (simp add: fs nth_append nth_butlast)
qed

lemma make_step_leaves:
  assumes len: "length (layers fs) = length (layers model)"
  shows "\<exists>model'. make_step E fs (optax_sgd scale) model x y opt_state = Inr (model', opt_state) \<and>
           length (layers model') = length (layers model) \<and>
           (\<not> activation fs \<longrightarrow> activation model' = activation model) \<and>
           (\<not> final_activation fs \<longrightarrow> final_activation model' = final_activation model) \<and>
           (\<forall>i < length (layers model).
              (\<not> weight (layers fs ! i) \<longrightarrow>
                 weight (layers model' ! i) = weight (layers model ! i)) \<and>
              (\<not> bias (layers fs ! i) \<longrightarrow>
                 bias (layers model' ! i) = bias (layers model ! i)))"
proof -
  define D where "D =
     \<lparr>layers = map2 (\<lambda>l1 l2. \<lparr>weight = (if weight l1 then Some (weight l2) else None),
                               bias = (if bias l1 then Some (bias l2) else None)\<rparr>)
                     (layers fs) (layers model),
      activation = (if activation fs then Some (activation model) else None),
      final_activation = (if final_activation fs then Some (final_activation model) else None)\<rparr>"
  define S where "S =
     \<lparr>layers = map2 (\<lambda>l1 l2. \<lparr>weight = (if weight l1 then None else Some (weight l2)),
                               bias = (if bias l1 then None else Some (bias l2))\<rparr>)
                     (layers fs) (layers model),
      activation = (if activation fs then None else Some (activation model)),
      final_activation = (if final_activation fs then None else Some (final_activation model))\<rparr>"
  have part: "eqx_partition model fs = Inr (D, S)"
    using len by (simp add: eqx_partition_def jtu_tree_map2_def D_def S_def)
  have lenD: "length (layers D) = length (layers model)" using len by (simp add: D_def)
  have lenS: "length (layers S) = length (layers model)" using len by (simp add: S_def)
  let ?f = "\<lambda>d. loss E d S x y"
  have "\<exists>r. ?f D = Inr r"
    by (simp add: loss_def eqx_combine_def jtu_tree_map2_def lenD lenS)
  then obtain r where r: "?f D = Inr r" ..
  define Gr where "Gr =
     \<lparr>layers = map (\<lambda>(i, l). \<lparr>weight = grad_leaf E (weight l) (autodiff E ?f D (LayerWeight i)),
                              bias = grad_leaf E (bias l) (autodiff E ?f D (LayerBias i))\<rparr>)
                    (enumerate 0 (layers D)),
      activation = grad_leaf E (activation D) (autodiff E ?f D ActivationLeaf),
      final_activation = grad_leaf E (final_activation D) (autodiff E ?f D FinalActivationLeaf)\<rparr>"
  have fg: "eqx_filter_grad E ?f D = Inr Gr"
    by (simp add: eqx_filter_grad_def r Gr_def)
  define U where "U = jtu_tree_map (map_option scale) Gr"
  have up: "\<And>os. update (optax_sgd scale) Gr os = (U, os)"
    by (simp add: optax_sgd_def U_def)
  have lenU: "length (layers U) = length (layers model)"
    by (simp add: U_def jtu_tree_map_def Gr_def lenD)
  define M where "M =
     \<lparr>layers = map2 (\<lambda>l1 l2. \<lparr>weight = (case weight l1 of None \<Rightarrow> weight l2
                                          | Some d \<Rightarrow> add E (weight l2) d),
                               bias = (case bias l1 of None \<Rightarrow> bias l2
                                        | Some d \<Rightarrow> add E (bias l2) d)\<rparr>)
                     (layers U) (layers model),
      activation = (case activation U of None \<Rightarrow> activation model
                    | Some d \<Rightarrow> add E (activation model) d),
      final_activation = (case final_activation U of None \<Rightarrow> final_activation model
                    | Some d \<Rightarrow> add E (final_activation model) d)\<rparr>"
  have ap: "eqx_apply_updates E model U = Inr M"
    by (simp add: eqx_apply_updates_def jtu_tree_map2_def lenU M_def)
  have res: "make_step E fs (optax_sgd scale) model x y opt_state = Inr (M, opt_state)"
    by (simp add: make_step_def part fg up ap)
  have lenM: "length (layers M) = length (layers model)" by (simp add: M_def lenU)
  have act: "\<not> activation fs \<Longrightarrow> activation M = activation model"
    by (simp add: M_def U_def jtu_tree_map_def Gr_def D_def grad_leaf_def)
  have fact: "\<not> final_activation fs \<Longrightarrow> final_activation M = final_activation model"
    by (simp add: M_def U_def jtu_tree_map_def Gr_def D_def grad_leaf_def)
  have lay: "(\<not> weight (layers fs ! i) \<longrightarrow> weight (layers M ! i) = weight (layers model ! i)) \<and>
             (\<not> bias (layers fs ! i) \<longrightarrow> bias (layers M ! i) = bias (layers model ! i))"
    if i: "i < length (layers model)" for i
  proof -
    have Di: "layers D ! i = \<lparr>weight = (if weight (layers fs ! i) then Some (weight (layers model ! i)) else None),
                              bias = (if bias (layers fs ! i) then Some (bias (layers model ! i)) else None)\<rparr>"
      using i len by (simp add: D_def)
    have Gi: "layers Gr ! i = \<lparr>weight = grad_leaf E (weight (layers D ! i)) (autodiff E ?f D (LayerWeight i)),
                              bias = grad_leaf E (bias (layers D ! i)) (autodiff E ?f D (LayerBias i))\<rparr>"
      using i lenD by (simp add: Gr_def nth_enumerate_eq)
    have Ui: "layers U ! i = \<lparr>weight = map_option scale (weight (layers Gr ! i)),
                              bias = map_option scale (bias (layers Gr ! i))\<rparr>"
      using i lenD by (simp add: U_def jtu_tree_map_def Gr_def)
    have Mi: "layers M ! i = \<lparr>weight = (case weight (layers U ! i) of None \<Rightarrow> weight (layers model ! i)
                                          | Some d \<Rightarrow> add E (weight (layers model ! i)) d),
                               bias = (case bias (layers U ! i) of None \<Rightarrow> bias (layers model ! i)
                                        | Some d \<Rightarrow> add E (bias (layers model ! i)) d)\<rparr>"
      using i lenU by (simp add: M_def)
    show ?thesis by (simp add: Mi Ui Gi Di grad_leaf_def)
  qed
  show ?thesis
    using res lenM act fact lay by blast
qed

lemma make_step_mismatch:
  assumes "length (layers fs) \<noteq> length (layers model)"
  shows "make_step E fs optim model x y opt_state = Inl ValueError"
  using assms by (simp add: make_step_def eqx_partition_def jtu_tree_map2_def)

text \<open>
  C6. Let \<open>filter_spec\<close> be built from a model as in \<open>main\<close>: it is \<open>True\<close> at the
  weight and the bias of the last layer and \<open>False\<close> at every other leaf. For every
  model, every batch and every optimiser state, a model that \<open>make_step\<close> returns has
  the same layers as the argument except possibly the last one, and the same two
  activation leaves; and \<open>make_step\<close> does return a model when its argument has as many
  layers as the model from which \<open>filter_spec\<close> was built.
\<close>

theorem make_step_frame:
  assumes "filter_spec_of model0 = Inr filter_spec"
  shows "last (layers filter_spec) = \<lparr>weight = True, bias = True\<rparr> \<and>
         (\<forall>i < length (layers model0) - 1.
            layers filter_spec ! i = \<lparr>weight = False, bias = False\<rparr>) \<and>
         activation filter_spec = False \<and> final_activation filter_spec = False \<and>
         (\<forall>model' opt_state'.
            make_step E filter_spec (optax_sgd scale) model x y opt_state = Inr (model', opt_state') \<longrightarrow>
              length (layers model') = length (layers model) \<and>
              butlast (layers model') = butlast (layers model) \<and>
              activation model' = activation model \<and>
              final_activation model' = final_activation model) \<and>
         (length (layers model) = length (layers model0) \<longrightarrow>
            (\<exists>model'. make_step E filter_spec (optax_sgd scale) model x y opt_state =
                        Inr (model', opt_state)))"
proof -
  note S = filter_spec_shape[OF assms]
  have frame: "length (layers model') = length (layers model) \<and>
              butlast (layers model') = butlast (layers model) \<and>
              activation model' = activation model \<and>
              final_activation model' = final_activation model"
    if ret: "make_step E filter_spec (optax_sgd scale) model x y opt_state = Inr (model', opt_state')"
    for model' opt_state'
  proof -
    have len: "length (layers filter_spec) = length (layers model)"
    proof (rule ccontr)
      assume "length (layers filter_spec) \<noteq> length (layers model)"
      from make_step_mismatch[OF this, of E "optax_sgd scale" x y opt_state] ret
      show False by simp
    qed
    from make_step_leaves[OF len, of E scale x y opt_state] ret
    have lm: "length (layers model') = length (layers model)"
      and act: "\<not> activation filter_spec \<longrightarrow> activation model' = activation model"
      and fact: "\<not> final_activation filter_spec \<longrightarrow> final_activation model' = final_activation model"
      and lay: "\<forall>i < length (layers model).
              (\<not> weight (layers filter_spec ! i) \<longrightarrow>
                 weight (layers model' ! i) = weight (layers model ! i)) \<and>
              (\<not> bias (layers filter_spec ! i) \<longrightarrow>
                 bias (layers model' ! i) = bias (layers model ! i))"
      by auto
    have "butlast (layers model') = butlast (layers model)"
    proof (rule nth_equalityI)
      show "length (butlast (layers model')) = length (butlast (layers model))" by (simp add: lm)
    next
      fix i assume "i < length (butlast (layers model'))"
      then have i: "i < length (layers model) - 1" by (simp add: lm)
      then have "layers filter_spec ! i = \<lparr>weight = False, bias = False\<rparr>"
        using S(5)[of i] S(2) len by simp
      then have "weight (layers model' ! i) = weight (layers model ! i)"
        and "bias (layers model' ! i) = bias (layers model ! i)"
        using lay i by simp_all
      then have "layers model' ! i = layers model ! i" by simp
      then show "butlast (layers model') ! i = butlast (layers model) ! i"
        using i by (simp add: nth_butlast lm)
    qed
    then show ?thesis using lm act fact S(3,4) by simp
  qed
  have total: "\<exists>model'. make_step E filter_spec (optax_sgd scale) model x y opt_state =
                        Inr (model', opt_state)"
    if "length (layers model) = length (layers model0)"
  proof -
    have len: "length (layers filter_spec) = length (layers model)" using S(2) that by simp
    from make_step_leaves[OF len, of E scale x y opt_state] show ?thesis by blast
  qed
  show ?thesis
    using frame total S(3,4,5,6) by blast
qed

theorem make_step_frame_witness:
  "filter_spec_of demo_mlp = Inr demo_filter_spec \<and>
   length (layers demo_mlp) = length (layers demo_mlp) \<and>
   (\<exists>model'. make_step demo_array_lib demo_filter_spec (optax_sgd uminus) demo_mlp [1, 2] [3, 4] () =
                Inr (model', ()) \<and>
              butlast (layers model') = [\<lparr>weight = 1, bias = 2\<rparr>] \<and>
              activation model' = 5 \<and> final_activation model' = 6)"
proof -
  have h: "filter_spec_of demo_mlp = Inr demo_filter_spec"
    by (simp add: filter_spec_of_def eqx_tree_at_last_layer_def jtu_tree_map_def demo_mlp_def
        demo_filter_spec_def)
  note w = make_step_frame[OF h, of demo_array_lib uminus demo_mlp "[1, 2]" "[3, 4]" "()"]
  from w obtain model' where
    r: "make_step demo_array_lib demo_filter_spec (optax_sgd uminus) demo_mlp [1, 2] [3, 4] () =
       Inr (model', ())"
    by blast
  with w have "butlast (layers model') = butlast (layers demo_mlp)"
    "activation model' = activation demo_mlp"
    "final_activation model' = final_activation demo_mlp"
    by blast+
  with r show ?thesis using h by (auto simp: demo_mlp_def)
qed

subsection \<open>The documents\<close>

text \<open>
  C7. Each of the three notebooks has a list \<open>cells\<close>, an object \<open>metadata\<close>,
  \<open>nbformat\<close> equal to 4 and a number \<open>nbformat_minor\<close> at its top level, and
  mkdocs.yml defines \<open>theme\<close>, \<open>plugins\<close> and \<open>nav\<close>.
\<close>

theorem documents_top_level:
  "notebook_top_level nb_stateful \<and> notebook_top_level nb_frozen_layer \<and>
   notebook_top_level nb_init_apply \<and>
   has_field ''theme'' mkdocs_yml \<and> has_field ''plugins'' mkdocs_yml \<and>
   has_field ''nav'' mkdocs_yml"
  by (simp add: notebook_top_level_def has_field_def nb_stateful_def nb_frozen_layer_def
      nb_init_apply_def mkdocs_yml_def)

lemma cells_stateful:
  "list_all cell_ok (cells_of nb_stateful) \<and> length (cells_of nb_stateful) = 10"
  by (simp add: cell_ok_def has_field_def cells_of_def nb_stateful_def)

lemma cells_frozen_layer:
  "list_all cell_ok (cells_of nb_frozen_layer) \<and> length (cells_of nb_frozen_layer) = 7"
  by (simp add: cell_ok_def has_field_def cells_of_def nb_frozen_layer_def)

lemma cells_init_apply:
  "list_all cell_ok (cells_of nb_init_apply) \<and> length (cells_of nb_init_apply) = 4"
  by (simp add: cell_ok_def has_field_def cells_of_def nb_init_apply_def)

text \<open>
  C8. In each of the three notebooks every cell is a markdown cell or a code cell, and
  every code cell has a list \<open>outputs\<close> and a field \<open>execution_count\<close>; the notebooks
  have 10, 7 and 4 cells.
\<close>

theorem cells_well_formed:
  "(list_all cell_ok (cells_of nb_stateful) \<and> length (cells_of nb_stateful) = 10) \<and>
   (list_all cell_ok (cells_of nb_frozen_layer) \<and> length (cells_of nb_frozen_layer) = 7) \<and>
   (list_all cell_ok (cells_of nb_init_apply) \<and> length (cells_of nb_init_apply) = 4)"
  using cells_stateful cells_frozen_layer cells_init_apply by (intro conjI) blast+

end
